theory Spec2Isabelle
  imports Complex_Main "HOL-Library.Code_Target_Numeral"
begin

section \<open>Python values used by the invoice pipeline\<close>

text \<open>
  The development embeds four modules of the repository:
  \<^verbatim>\<open>app/extraction/extractor.py\<close>, \<^verbatim>\<open>app/validation/rule_engine.py\<close>,
  \<^verbatim>\<open>app/confidence/confidence.py\<close> and \<^verbatim>\<open>app/pipeline/pipeline.py\<close>.

  Conventions of the embedding.
  \<^item> A Python \<^verbatim>\<open>str\<close> is a \<^typ>\<open>string\<close> of ASCII code points. Characters outside
    ASCII are neither letters, digits nor whitespace here, and \<^verbatim>\<open>lower()\<close> leaves them
    alone.
  \<^item> A Python \<^verbatim>\<open>float\<close> is an exact rational (\<^typ>\<open>rat\<close>); \<^verbatim>\<open>round(x, 4)\<close> and
    the format \<^verbatim>\<open>:.3f\<close> round the exact value, ties to even.
  \<^item> A finite \<^verbatim>\<open>Decimal\<close> is a signed coefficient and an exponent. The context
    precision of 28 digits, the special values NaN and Infinity and the sign of zero
    are not modelled.
  \<^item> \<^verbatim>\<open>None\<close> is \<^term>\<open>None\<close>; an exception is the left summand of a sum type.
  \<^item> Logging has no effect on any value and is left out.
\<close>

subsection \<open>Characters and strings\<close>

definition is_digit :: "char \<Rightarrow> bool" where
  "is_digit c = (c \<in> set ''0123456789'')"

definition is_upper :: "char \<Rightarrow> bool" where
  "is_upper c = (c \<in> set ''ABCDEFGHIJKLMNOPQRSTUVWXYZ'')"

definition is_lower :: "char \<Rightarrow> bool" where
  "is_lower c = (c \<in> set ''abcdefghijklmnopqrstuvwxyz'')"

text \<open>\<^verbatim>\<open>str.isspace\<close> on ASCII: tab, line feed, vertical tab, form feed, carriage
  return, the four separators 0x1C to 0x1F, and the space.\<close>

definition is_space :: "char \<Rightarrow> bool" where
  "is_space c = (c \<in> set [CHR 0x09, CHR 0x0A, CHR 0x0B, CHR 0x0C, CHR 0x0D,
                           CHR 0x1C, CHR 0x1D, CHR 0x1E, CHR 0x1F, CHR 0x20])"

definition lower_char :: "char \<Rightarrow> char" where
  "lower_char c =
     (case map_of (zip ''ABCDEFGHIJKLMNOPQRSTUVWXYZ'' ''abcdefghijklmnopqrstuvwxyz'') c of
        Some d \<Rightarrow> d
      | None \<Rightarrow> c)"

text \<open>\<^verbatim>\<open>s.lower()\<close>\<close>

definition lower :: "string \<Rightarrow> string" where
  "lower s = map lower_char s"

text \<open>\<^verbatim>\<open>s.strip()\<close>\<close>

definition strip :: "string \<Rightarrow> string" where
  "strip s = rev (dropWhile is_space (rev (dropWhile is_space s)))"

text \<open>\<^verbatim>\<open>sub in s\<close> for strings\<close>

fun contains :: "string \<Rightarrow> string \<Rightarrow> bool" where
  "contains [] sub = (sub = [])"
| "contains (c # cs) sub = (take (length sub) (c # cs) = sub \<or> contains cs sub)"

text \<open>\<^verbatim>\<open>s.split(":", 1)[-1]\<close>: the text after the first colon, the whole string when
  there is none.\<close>

definition after_first_colon :: "string \<Rightarrow> string" where
  "after_first_colon s =
     (if CHR '':'' \<in> set s then tl (dropWhile (\<lambda>c. c \<noteq> CHR '':'') s) else s)"

text \<open>\<^verbatim>\<open>s.split("$")[-1]\<close>: the text after the last dollar sign, the whole string
  when there is none.\<close>

definition after_last_dollar :: "string \<Rightarrow> string" where
  "after_last_dollar s = rev (takeWhile (\<lambda>c. c \<noteq> CHR ''$'') (rev s))"

text \<open>\<^verbatim>\<open>text.split("\n")\<close>: always at least one piece.\<close>

fun split_lines :: "string \<Rightarrow> string list" where
  "split_lines [] = [[]]"
| "split_lines (c # cs) =
     (if c = CHR 0x0A then [] # split_lines cs
      else (case split_lines cs of
              l # ls \<Rightarrow> (c # l) # ls
            | [] \<Rightarrow> [[c]]))"

text \<open>\<^verbatim>\<open>s.replace(old, "")\<close> for a single character \<^verbatim>\<open>old\<close>\<close>

definition remove_char :: "char \<Rightarrow> string \<Rightarrow> string" where
  "remove_char x s = filter (\<lambda>c. c \<noteq> x) s"

text \<open>\<^verbatim>\<open>s.isalnum()\<close>: every character is a letter or a digit, and there is at least
  one.\<close>

definition isalnum :: "string \<Rightarrow> bool" where
  "isalnum s = (s \<noteq> [] \<and> list_all (\<lambda>c. is_digit c \<or> is_upper c \<or> is_lower c) s)"

text \<open>\<^verbatim>\<open>int(s)\<close> for a string of digits, and \<^verbatim>\<open>str(n)\<close> for a natural number.\<close>

definition digit_val :: "char \<Rightarrow> nat" where
  "digit_val c = of_char c - 48"

definition nat_of_digits :: "string \<Rightarrow> nat" where
  "nat_of_digits ds = foldl (\<lambda>n c. 10 * n + digit_val c) 0 ds"

definition digit_char :: "nat \<Rightarrow> char" where
  "digit_char d = ''0123456789'' ! (d mod 10)"

fun str_nat :: "nat \<Rightarrow> string" where
  "str_nat n = (if n < 10 then [digit_char n] else str_nat (n div 10) @ [digit_char (n mod 10)])"

declare str_nat.simps [simp del]

definition str_int :: "int \<Rightarrow> string" where
  "str_int i = (if i < 0 then CHR ''-'' # str_nat (nat (- i)) else str_nat (nat i))"

subsection \<open>Exceptions\<close>

text \<open>
  The exceptions that cross a function boundary in the embedded code:
  \<^verbatim>\<open>ValueError\<close> (document not found), \<^verbatim>\<open>decimal.InvalidOperation\<close> (a value that
  is no decimal), and whatever a capability provider (the OCR engine, the generative
  extractor) raises, kept with its \<^verbatim>\<open>str(exc)\<close>.
\<close>

datatype exn = ValueError string | InvalidOperation | ProviderError string

fun str_exn :: "exn \<Rightarrow> string" where
  "str_exn (ValueError m) = m"
| "str_exn InvalidOperation = ''[<class 'decimal.ConversionSyntax'>]''"
| "str_exn (ProviderError m) = m"

subsection \<open>Decimal\<close>

record decimal =
  coeff :: int
  expo :: int

text \<open>The number a decimal stands for.\<close>

definition dec_val :: "decimal \<Rightarrow> rat" where
  "dec_val d = of_int (coeff d) * 10 powi expo d"

text \<open>The coefficient of a decimal at a smaller exponent \<open>e\<close>.\<close>

definition rescale :: "decimal \<Rightarrow> int \<Rightarrow> int" where
  "rescale d e = coeff d * 10 ^ nat (expo d - e)"

text \<open>\<^verbatim>\<open>a + b\<close>, \<^verbatim>\<open>a - b\<close>, \<^verbatim>\<open>abs(a)\<close>, \<^verbatim>\<open>a <= b\<close> and \<^verbatim>\<open>bool(a)\<close>. The result
  of an addition has the smaller of the two exponents.\<close>

definition dec_add :: "decimal \<Rightarrow> decimal \<Rightarrow> decimal" where
  "dec_add a b = (let e = min (expo a) (expo b)
                  in \<lparr>coeff = rescale a e + rescale b e, expo = e\<rparr>)"

definition dec_sub :: "decimal \<Rightarrow> decimal \<Rightarrow> decimal" where
  "dec_sub a b = (let e = min (expo a) (expo b)
                  in \<lparr>coeff = rescale a e - rescale b e, expo = e\<rparr>)"

definition dec_abs :: "decimal \<Rightarrow> decimal" where
  "dec_abs a = a\<lparr>coeff := \<bar>coeff a\<bar>\<rparr>"

definition dec_le :: "decimal \<Rightarrow> decimal \<Rightarrow> bool" where
  "dec_le a b = (let e = min (expo a) (expo b) in rescale a e \<le> rescale b e)"

definition dec_truthy :: "decimal \<Rightarrow> bool" where
  "dec_truthy a = (coeff a \<noteq> 0)"

text \<open>\<^verbatim>\<open>Decimal(0)\<close>, the start value of \<^verbatim>\<open>sum\<close>, and \<^verbatim>\<open>Decimal("0.01")\<close>.\<close>

definition dec_zero :: decimal where
  "dec_zero = \<lparr>coeff = 0, expo = 0\<rparr>"

definition tolerance :: decimal where
  "tolerance = \<lparr>coeff = 1, expo = - 2\<rparr>"

text \<open>
  \<^verbatim>\<open>Decimal(s)\<close> for a string \<open>s\<close> of digits and dots, the only strings the
  pattern-based extractor passes to the constructor: digits, then optionally a dot and
  more digits, with a digit somewhere. Every other string is refused with
  \<^verbatim>\<open>InvalidOperation\<close>, here \<^term>\<open>None\<close>. (The constructor also accepts signs,
  exponents, underscores, surrounding whitespace and the special values; no string of
  digits and dots is one of those.)
\<close>

definition Decimal :: "string \<Rightarrow> decimal option" where
  "Decimal s =
     (let ip = takeWhile is_digit s;
          r = dropWhile is_digit s;
          fp = (case r of c # t \<Rightarrow> if c = CHR ''.'' then takeWhile is_digit t else [] | [] \<Rightarrow> []);
          r' = (case r of c # t \<Rightarrow> if c = CHR ''.'' then dropWhile is_digit t else r | [] \<Rightarrow> [])
      in if r' = [] \<and> ip @ fp \<noteq> []
         then Some \<lparr>coeff = int (nat_of_digits (ip @ fp)), expo = - int (length fp)\<rparr>
         else None)"

text \<open>\<^verbatim>\<open>str(d)\<close>, the scientific string of the decimal module.\<close>

definition str_Decimal :: "decimal \<Rightarrow> string" where
  "str_Decimal d =
     (let sign = (if coeff d < 0 then ''-'' else '''');
          ds = str_nat (nat \<bar>coeff d\<bar>);
          n = int (length ds);
          leftdigits = expo d + n;
          dotplace = (if expo d \<le> 0 \<and> - 6 < leftdigits then leftdigits else 1);
          intpart = (if dotplace \<le> 0 then ''0''
                     else if n \<le> dotplace then ds @ replicate (nat (dotplace - n)) CHR ''0''
                     else take (nat dotplace) ds);
          fracpart = (if dotplace \<le> 0 then ''.'' @ replicate (nat (- dotplace)) CHR ''0'' @ ds
                      else if n \<le> dotplace then ''''
                      else ''.'' @ drop (nat dotplace) ds);
          ex = (if leftdigits = dotplace then ''''
                else ''E'' @ (if 0 \<le> leftdigits - dotplace then ''+'' else '''')
                     @ str_int (leftdigits - dotplace))
      in sign @ intpart @ fracpart @ ex)"

text \<open>\<^verbatim>\<open>_parse_decimal(value)\<close> for a string \<open>value\<close>: the conversion error becomes
  \<^verbatim>\<open>None\<close>.\<close>

definition parse_decimal :: "string option \<Rightarrow> decimal option" where
  "parse_decimal v = (case v of None \<Rightarrow> None | Some s \<Rightarrow> Decimal s)"

subsection \<open>Dates\<close>

text \<open>A \<^verbatim>\<open>datetime\<close> as \<^verbatim>\<open>strptime\<close> makes it from a format of year, month and
  day: the time of day is midnight.\<close>

record datetime =
  year :: nat
  month :: nat
  day :: nat

definition datetime_less :: "datetime \<Rightarrow> datetime \<Rightarrow> bool" where
  "datetime_less a b =
     (year a < year b \<or> (year a = year b \<and>
       (month a < month b \<or> (month a = month b \<and> day a < day b))))"

definition is_leap :: "nat \<Rightarrow> bool" where
  "is_leap y = (y mod 4 = 0 \<and> (y mod 100 \<noteq> 0 \<or> y mod 400 = 0))"

definition days_in_month :: "nat \<Rightarrow> nat \<Rightarrow> nat" where
  "days_in_month y m =
     (if m = 2 then (if is_leap y then 29 else 28)
      else if m \<in> set [4, 6, 9, 11] then 30 else 31)"

text \<open>
  The directives of \<^verbatim>\<open>strptime\<close> are regular expressions, tried at the front of the
  string; each function returns the number read and the rest.
  \<^verbatim>\<open>%Y\<close> is \<^verbatim>\<open>\d\d\d\d\<close>, \<^verbatim>\<open>%m\<close> is \<^verbatim>\<open>1[0-2]|0[1-9]|[1-9]\<close> and \<^verbatim>\<open>%d\<close> is
  \<^verbatim>\<open>3[0-1]|[1-2]\d|0[1-9]|[1-9]| [1-9]\<close>, the alternatives in this order. In the
  four formats used, a directive is followed by a separator or by the end of the
  format, so the first alternative that matches is the only one that can lead to a
  match of the whole format.
\<close>

datatype directive = Y | M | D | Lit char

definition read_Y :: "string \<Rightarrow> (nat \<times> string) option" where
  "read_Y s = (if 4 \<le> length s \<and> list_all is_digit (take 4 s)
               then Some (nat_of_digits (take 4 s), drop 4 s) else None)"

definition read_m :: "string \<Rightarrow> (nat \<times> string) option" where
  "read_m s =
     (case s of
        a # b # t \<Rightarrow>
          if a = CHR ''1'' \<and> b \<in> set ''012'' then Some (nat_of_digits [a, b], t)
          else if a = CHR ''0'' \<and> b \<in> set ''123456789'' then Some (nat_of_digits [a, b], t)
          else if a \<in> set ''123456789'' then Some (digit_val a, b # t)
          else None
      | [a] \<Rightarrow> if a \<in> set ''123456789'' then Some (digit_val a, []) else None
      | [] \<Rightarrow> None)"

definition read_d :: "string \<Rightarrow> (nat \<times> string) option" where
  "read_d s =
     (case s of
        a # b # t \<Rightarrow>
          if a = CHR ''3'' \<and> b \<in> set ''01'' then Some (nat_of_digits [a, b], t)
          else if a \<in> set ''12'' \<and> is_digit b then Some (nat_of_digits [a, b], t)
          else if a = CHR ''0'' \<and> b \<in> set ''123456789'' then Some (nat_of_digits [a, b], t)
          else if a \<in> set ''123456789'' then Some (digit_val a, b # t)
          else if a = CHR '' '' \<and> b \<in> set ''123456789'' then Some (digit_val b, t)
          else None
      | [a] \<Rightarrow> if a \<in> set ''123456789'' then Some (digit_val a, []) else None
      | [] \<Rightarrow> None)"

text \<open>Matching a format: the fields read so far are year, month and day (1900, 1, 1
  before any is read, as in \<^verbatim>\<open>_strptime\<close>); data left over is an error.\<close>

fun match_format :: "directive list \<Rightarrow> string \<Rightarrow> datetime \<Rightarrow> datetime option" where
  "match_format [] s dt = (if s = [] then Some dt else None)"
| "match_format (Y # fs) s dt =
     (case read_Y s of None \<Rightarrow> None | Some (n, r) \<Rightarrow> match_format fs r (dt\<lparr>year := n\<rparr>))"
| "match_format (M # fs) s dt =
     (case read_m s of None \<Rightarrow> None | Some (n, r) \<Rightarrow> match_format fs r (dt\<lparr>month := n\<rparr>))"
| "match_format (D # fs) s dt =
     (case read_d s of None \<Rightarrow> None | Some (n, r) \<Rightarrow> match_format fs r (dt\<lparr>day := n\<rparr>))"
| "match_format (Lit c # fs) s dt =
     (case s of x # r \<Rightarrow> if x = c then match_format fs r dt else None | [] \<Rightarrow> None)"

text \<open>\<^verbatim>\<open>datetime.strptime(value, fmt)\<close>; \<^term>\<open>None\<close> is its \<^verbatim>\<open>ValueError\<close>: no
  match, or a date that does not exist (year 0, day 30 of February).\<close>

definition strptime :: "string \<Rightarrow> directive list \<Rightarrow> datetime option" where
  "strptime v fmt =
     (case match_format fmt v \<lparr>year = 1900, month = 1, day = 1\<rparr> of
        None \<Rightarrow> None
      | Some dt \<Rightarrow> if 1 \<le> year dt \<and> day dt \<le> days_in_month (year dt) (month dt)
                   then Some dt else None)"

text \<open>The formats \<^verbatim>\<open>%Y-%m-%d\<close>, \<^verbatim>\<open>%m/%d/%Y\<close>, \<^verbatim>\<open>%d/%m/%Y\<close>, \<^verbatim>\<open>%d-%m-%Y\<close>.\<close>

definition date_formats :: "directive list list" where
  "date_formats =
     [[Y, Lit CHR ''-'', M, Lit CHR ''-'', D],
      [M, Lit CHR ''/'', D, Lit CHR ''/'', Y],
      [D, Lit CHR ''/'', M, Lit CHR ''/'', Y],
      [D, Lit CHR ''-'', M, Lit CHR ''-'', Y]]"

text \<open>The loop of \<^verbatim>\<open>_parse_date\<close> over the formats: the first that parses wins.\<close>

fun try_formats :: "string \<Rightarrow> directive list list \<Rightarrow> datetime option" where
  "try_formats v [] = None"
| "try_formats v (fmt # fmts) =
     (case strptime v fmt of Some dt \<Rightarrow> Some dt | None \<Rightarrow> try_formats v fmts)"

definition parse_date :: "string option \<Rightarrow> datetime option" where
  "parse_date value =
     (case value of
        None \<Rightarrow> None
      | Some v \<Rightarrow> if v = [] then None else try_formats v date_formats)"

section \<open>Extraction (\<^verbatim>\<open>app/extraction/extractor.py\<close>)\<close>

subsection \<open>Extracted data\<close>

text \<open>
  A line item is a \<^verbatim>\<open>dict\<close>; the pattern-based extractor and the rule engine read
  and write its keys \<^verbatim>\<open>description\<close> and \<^verbatim>\<open>total\<close> only. The rule engine never looks at the value \<open>v\<close>
  under \<^verbatim>\<open>total\<close> itself, only at \<^verbatim>\<open>Decimal(str(v))\<close>, so the value is kept as what
  that conversion makes of it: \<open>Amount d\<close> when it returns the decimal \<open>d\<close>,
  \<open>NonNumeric\<close> when it raises \<^verbatim>\<open>InvalidOperation\<close> (for \<^verbatim>\<open>None\<close>, say). A missing key
  is \<^term>\<open>None\<close>. \<open>NonDict\<close> is a list element that is no \<^verbatim>\<open>dict\<close>.
\<close>

datatype total_value = Amount decimal | NonNumeric

datatype line_item =
    DictItem (item_description: string) (item_total: "total_value option")
  | NonDict

record ExtractedData =
  vendor_name :: "string option"
  tax_id :: "string option"
  invoice_number :: "string option"
  total_amount :: "decimal option"
  invoice_date :: "datetime option"
  due_date :: "datetime option"
  line_items :: "line_item list option"
  extraction_confidence :: rat
  field_confidences :: "(string \<times> rat) list option"

text \<open>Truthiness of an optional string and of an optional decimal: \<^verbatim>\<open>None\<close>, the
  empty string and a zero decimal are false.\<close>

definition str_truthy :: "string option \<Rightarrow> bool" where
  "str_truthy v = (case v of None \<Rightarrow> False | Some s \<Rightarrow> s \<noteq> [])"

definition decimal_truthy :: "decimal option \<Rightarrow> bool" where
  "decimal_truthy v = (case v of None \<Rightarrow> False | Some d \<Rightarrow> dec_truthy d)"

subsection \<open>The cues of the pattern-based extractor\<close>

text \<open>The conditions of the \<^verbatim>\<open>if\<close> statements in the loop of \<^verbatim>\<open>_simple_extract\<close>,
  each on the line and its lower-case copy.\<close>

definition has_colon :: "string \<Rightarrow> bool" where
  "has_colon line = (CHR '':'' \<in> set line)"

definition vendor_cue :: "string \<Rightarrow> bool" where
  "vendor_cue line = (contains (lower line) ''vendor'' \<or> contains (lower line) ''company''
                      \<or> contains (lower line) ''from:'')"

definition tax_id_cue :: "string \<Rightarrow> bool" where
  "tax_id_cue line = (contains (lower line) ''tax id'' \<or> contains (lower line) ''ein''
                      \<or> contains (lower line) ''vat'')"

definition invoice_number_cue :: "string \<Rightarrow> bool" where
  "invoice_number_cue line = (contains (lower line) ''invoice #''
                              \<or> contains (lower line) ''invoice number''
                              \<or> contains (lower line) ''inv #'')"

definition invoice_date_cue :: "string \<Rightarrow> bool" where
  "invoice_date_cue line = (contains (lower line) ''invoice date''
                            \<or> contains (lower line) ''date:'')"

definition due_date_cue :: "string \<Rightarrow> bool" where
  "due_date_cue line = (contains (lower line) ''due date''
                        \<or> contains (lower line) ''payment due'')"

definition total_cue :: "string \<Rightarrow> bool" where
  "total_cue line = (contains (lower line) ''total'' \<and> CHR ''$'' \<in> set line)"

text \<open>\<^verbatim>\<open>line.split(":", 1)[-1].strip()\<close>, and the \<^verbatim>\<open>raw\<close> text of a date line.\<close>

definition field_value :: "string \<Rightarrow> string" where
  "field_value line = strip (after_first_colon line)"

definition raw_date :: "string \<Rightarrow> string" where
  "raw_date line = (if has_colon line then field_value line else [])"

text \<open>\<^verbatim>\<open>re.sub(r"[^\d.]", "", line.split("$")[-1])\<close>\<close>

definition amount_str :: "string \<Rightarrow> string" where
  "amount_str line = filter (\<lambda>c. is_digit c \<or> c = CHR ''.'') (after_last_dollar line)"

subsection \<open>Line-item detection\<close>

text \<open>
  The pattern is \<^verbatim>\<open>^(.+?)[\s:]+\$?([\d,]+\.?\d*)\s*$\<close>. The part after the first
  group is made of character classes that exclude each other (separators, the dollar
  sign, digits and commas, the dot), so it matches a string in one way at most:
  \<open>rest_match\<close> returns the second group. The first group is lazy: it is the shortest
  non-empty prefix after which the rest matches, found by \<open>item_search\<close>.
\<close>

definition is_sep :: "char \<Rightarrow> bool" where
  "is_sep c = (is_space c \<or> c = CHR '':'')"

definition is_digit_or_comma :: "char \<Rightarrow> bool" where
  "is_digit_or_comma c = (is_digit c \<or> c = CHR '','')"

definition rest_match :: "string \<Rightarrow> string option" where
  "rest_match r =
     (let r1 = dropWhile is_sep r;
          r2 = (case r1 of c # t \<Rightarrow> if c = CHR ''$'' then t else r1 | [] \<Rightarrow> r1);
          run = takeWhile is_digit_or_comma r2;
          r3 = dropWhile is_digit_or_comma r2;
          dot = (case r3 of c # t \<Rightarrow> if c = CHR ''.'' then ''.'' else [] | [] \<Rightarrow> []);
          r4 = (case r3 of c # t \<Rightarrow> if c = CHR ''.'' then t else r3 | [] \<Rightarrow> r3);
          frac = takeWhile is_digit r4;
          r5 = dropWhile is_space (dropWhile is_digit r4)
      in if length r1 < length r \<and> run \<noteq> [] \<and> r5 = []
         then Some (run @ dot @ frac) else None)"

fun item_search :: "string \<Rightarrow> string \<Rightarrow> (string \<times> string) option" where
  "item_search pre [] = None"
| "item_search pre (c # cs) =
     (case rest_match cs of
        Some g \<Rightarrow> Some (pre @ [c], g)
      | None \<Rightarrow> item_search (pre @ [c]) cs)"

definition item_match :: "string \<Rightarrow> (string \<times> string) option" where
  "item_match s = item_search [] s"

text \<open>The last block of the loop body: the item to append for a line, if any. The
  total is stored as \<^verbatim>\<open>str(amt)\<close>, which converts back to \<open>amt\<close>.\<close>

definition detect_item :: "string \<Rightarrow> line_item option" where
  "detect_item line =
     (case item_match (strip line) of
        None \<Rightarrow> None
      | Some (g1, g2) \<Rightarrow>
          if contains (lower line) ''total'' then None
          else (case Decimal (remove_char CHR '','' g2) of
                  None \<Rightarrow> None
                | Some amt \<Rightarrow> Some (DictItem (strip g1) (Some (Amount amt)))))"

subsection \<open>The loop of \<^verbatim>\<open>_simple_extract\<close>\<close>

text \<open>The local variables of \<^verbatim>\<open>_simple_extract\<close>.\<close>

record scan =
  s_vendor_name :: "string option"
  s_tax_id :: "string option"
  s_invoice_number :: "string option"
  s_total_amount :: "decimal option"
  s_invoice_date :: "datetime option"
  s_due_date :: "datetime option"
  s_line_items :: "line_item list"

definition scan_init :: scan where
  "scan_init = \<lparr>s_vendor_name = None, s_tax_id = None, s_invoice_number = None,
                s_total_amount = None, s_invoice_date = None, s_due_date = None,
                s_line_items = []\<rparr>"

text \<open>The statements of the loop body, one function each, in the order of the source:
  six \<^verbatim>\<open>if\<close> statements for the six fields, then the line-item detection.\<close>

definition scan_vendor_name :: "string \<Rightarrow> scan \<Rightarrow> scan" where
  "scan_vendor_name line st =
     (if vendor_cue line
      then st\<lparr>s_vendor_name :=
             (if has_colon line then Some (field_value line) else s_vendor_name st)\<rparr>
      else st)"

definition scan_tax_id :: "string \<Rightarrow> scan \<Rightarrow> scan" where
  "scan_tax_id line st =
     (if tax_id_cue line
      then st\<lparr>s_tax_id := (if has_colon line then Some (field_value line) else s_tax_id st)\<rparr>
      else st)"

definition scan_invoice_number :: "string \<Rightarrow> scan \<Rightarrow> scan" where
  "scan_invoice_number line st =
     (if invoice_number_cue line
      then st\<lparr>s_invoice_number :=
             (if has_colon line then Some (field_value line) else s_invoice_number st)\<rparr>
      else st)"

definition scan_invoice_date :: "string \<Rightarrow> scan \<Rightarrow> scan" where
  "scan_invoice_date line st =
     (if invoice_date_cue line \<and> s_invoice_date st = None
      then st\<lparr>s_invoice_date := parse_date (Some (raw_date line))\<rparr>
      else st)"

definition scan_due_date :: "string \<Rightarrow> scan \<Rightarrow> scan" where
  "scan_due_date line st =
     (if due_date_cue line
      then st\<lparr>s_due_date := parse_date (Some (raw_date line))\<rparr>
      else st)"

definition scan_total_amount :: "string \<Rightarrow> scan \<Rightarrow> scan" where
  "scan_total_amount line st =
     (if total_cue line
      then (if amount_str line \<noteq> []
            then st\<lparr>s_total_amount := parse_decimal (Some (amount_str line))\<rparr>
            else st)
      else st)"

definition scan_line_item :: "string \<Rightarrow> scan \<Rightarrow> scan" where
  "scan_line_item line st =
     (case detect_item line of
        None \<Rightarrow> st
      | Some item \<Rightarrow> st\<lparr>s_line_items := s_line_items st @ [item]\<rparr>)"

text \<open>One pass of the loop body.\<close>

definition scan_line :: "string \<Rightarrow> scan \<Rightarrow> scan" where
  "scan_line line st =
     scan_line_item line
       (scan_total_amount line
          (scan_due_date line
             (scan_invoice_date line
                (scan_invoice_number line
                   (scan_tax_id line
                      (scan_vendor_name line st))))))"

text \<open>The \<^verbatim>\<open>for\<close> loop over the lines.\<close>

fun scan_lines :: "string list \<Rightarrow> scan \<Rightarrow> scan" where
  "scan_lines [] st = st"
| "scan_lines (line # rest) st = scan_lines rest (scan_line line st)"

text \<open>What follows the loop: the confidence heuristic and the result.\<close>

definition finish :: "scan \<Rightarrow> ExtractedData" where
  "finish st =
     (let confidence = (if s_vendor_name st \<noteq> None \<or> s_tax_id st \<noteq> None
                           \<or> s_invoice_number st \<noteq> None \<or> s_total_amount st \<noteq> None
                        then 7 / 10 else 3 / 10);
          fc = [(''vendor_name'', if str_truthy (s_vendor_name st) then 8 / 10 else 0),
                (''tax_id'', if str_truthy (s_tax_id st) then 8 / 10 else 0),
                (''invoice_number'', if str_truthy (s_invoice_number st) then 8 / 10 else 0),
                (''total_amount'', if decimal_truthy (s_total_amount st) then 8 / 10 else 0),
                (''invoice_date'', if s_invoice_date st \<noteq> None then 8 / 10 else 0),
                (''due_date'', if s_due_date st \<noteq> None then 8 / 10 else 0)]
      in \<lparr>vendor_name = s_vendor_name st, tax_id = s_tax_id st,
          invoice_number = s_invoice_number st, total_amount = s_total_amount st,
          invoice_date = s_invoice_date st, due_date = s_due_date st,
          line_items = Some (s_line_items st), extraction_confidence = confidence,
          field_confidences = Some fc\<rparr>)"

definition simple_extract :: "string \<Rightarrow> ExtractedData" where
  "simple_extract txt = finish (scan_lines (split_lines txt) scan_init)"

subsection \<open>The facade \<^verbatim>\<open>Extractor.extract\<close>\<close>

text \<open>
  \<^verbatim>\<open>Extractor.extract\<close>. \<open>mode\<close> is the setting \<^verbatim>\<open>extraction_mode\<close>. \<open>llm_extract\<close> stands for
  \<^verbatim>\<open>_llm_extract\<close>, the call to the model provider and the decoding of its answer:
  what it returns or raises for a text is an input of the model. The \<^verbatim>\<open>except\<close>
  clause catches every \<^verbatim>\<open>Exception\<close>.
\<close>

definition Extractor_extract ::
  "string \<Rightarrow> (string \<Rightarrow> exn + ExtractedData) \<Rightarrow> string \<Rightarrow> exn + ExtractedData" where
  "Extractor_extract mode llm_extract ocr_text =
     (if mode = ''llm''
      then (case llm_extract ocr_text of
              Inr d \<Rightarrow> Inr d
            | Inl exc \<Rightarrow> Inr (simple_extract ocr_text))
      else Inr (simple_extract ocr_text))"

section \<open>Validation (\<^verbatim>\<open>app/validation/rule_engine.py\<close>)\<close>

record ValidationResult =
  rule_name :: string
  passed :: bool
  score :: rat
  message :: "string option"

text \<open>\<^verbatim>\<open>Decimal(str(item.get("total", 0)))\<close> for a \<^verbatim>\<open>dict\<close> item.\<close>

definition item_Decimal :: "total_value option \<Rightarrow> exn + decimal" where
  "item_Decimal t =
     (case t of
        None \<Rightarrow> Inr dec_zero
      | Some (Amount d) \<Rightarrow> Inr d
      | Some NonNumeric \<Rightarrow> Inl InvalidOperation)"

text \<open>\<^verbatim>\<open>sum(... for item in line_items if isinstance(item, dict))\<close>, from the left,
  starting at 0; the first value that is no decimal raises.\<close>

fun sum_totals :: "line_item list \<Rightarrow> decimal \<Rightarrow> exn + decimal" where
  "sum_totals [] acc = Inr acc"
| "sum_totals (NonDict # items) acc = sum_totals items acc"
| "sum_totals (DictItem d t # items) acc =
     (case item_Decimal t of
        Inl exc \<Rightarrow> Inl exc
      | Inr v \<Rightarrow> sum_totals items (dec_add acc v))"

text \<open>Truthiness of the optional list of line items: \<^verbatim>\<open>None\<close> and the empty list are
  false.\<close>

definition items_truthy :: "line_item list option \<Rightarrow> bool" where
  "items_truthy v = (case v of None \<Rightarrow> False | Some items \<Rightarrow> items \<noteq> [])"

definition validate_line_items_sum :: "ExtractedData \<Rightarrow> exn + ValidationResult" where
  "validate_line_items_sum extracted =
     (if \<not> items_truthy (line_items extracted) \<or> \<not> decimal_truthy (total_amount extracted)
      then Inr \<lparr>rule_name = ''line_items_sum'', passed = True, score = 1,
                message = Some ''Skipped: no line items or total''\<rparr>
      else (case sum_totals (the (line_items extracted)) dec_zero of
              Inl exc \<Rightarrow> Inl exc
            | Inr calculated_total \<Rightarrow>
                if dec_le (dec_abs (dec_sub calculated_total (the (total_amount extracted))))
                     tolerance
                then Inr \<lparr>rule_name = ''line_items_sum'', passed = True, score = 1,
                          message = Some (''Line items sum matches total: ''
                                          @ str_Decimal calculated_total)\<rparr>
                else Inr \<lparr>rule_name = ''line_items_sum'', passed = False, score = 0,
                          message = Some (''Line items sum ('' @ str_Decimal calculated_total
                                          @ '') does not match total (''
                                          @ str_Decimal (the (total_amount extracted))
                                          @ '')'')\<rparr>))"

definition validate_tax_id_format :: "ExtractedData \<Rightarrow> ValidationResult" where
  "validate_tax_id_format extracted =
     (if \<not> str_truthy (tax_id extracted)
      then \<lparr>rule_name = ''tax_id_format'', passed = True, score = 1,
             message = Some ''Skipped: no tax ID''\<rparr>
      else (let tid = remove_char CHR '' '' (remove_char CHR ''-'' (the (tax_id extracted)))
            in if isalnum tid \<and> 5 \<le> length tid \<and> length tid \<le> 20
               then \<lparr>rule_name = ''tax_id_format'', passed = True, score = 1,
                      message = Some ''Tax ID format is valid''\<rparr>
               else \<lparr>rule_name = ''tax_id_format'', passed = False, score = 1 / 2,
                      message = Some (''Tax ID format may be invalid: ''
                                      @ the (tax_id extracted))\<rparr>))"

definition validate_dates :: "ExtractedData \<Rightarrow> ValidationResult" where
  "validate_dates extracted =
     (case invoice_date extracted of
        None \<Rightarrow> \<lparr>rule_name = ''date_consistency'', passed = True, score = 1,
                  message = Some ''Skipped: no invoice date''\<rparr>
      | Some inv_date \<Rightarrow>
          (case due_date extracted of
             None \<Rightarrow> \<lparr>rule_name = ''date_consistency'', passed = True, score = 1,
                       message = Some ''Dates are consistent''\<rparr>
           | Some due \<Rightarrow>
               if datetime_less due inv_date
               then \<lparr>rule_name = ''date_consistency'', passed = False, score = 0,
                      message = Some ''Due date is before invoice date''\<rparr>
               else \<lparr>rule_name = ''date_consistency'', passed = True, score = 1,
                      message = Some ''Dates are consistent''\<rparr>))"

text \<open>
  \<^verbatim>\<open>repr(s)\<close> of an ASCII string, for \<^verbatim>\<open>{inv_num!r}\<close>: between double quotes when the
  string has a single quote and no double quote, between single quotes otherwise; the
  quote in use and the backslash are escaped, tab, line feed and carriage return are
  written \<^verbatim>\<open>\t\<close>, \<^verbatim>\<open>\n\<close>, \<^verbatim>\<open>\r\<close>, and every other control character is written
  \<^verbatim>\<open>\xhh\<close>.
\<close>

definition hex_digit :: "nat \<Rightarrow> char" where
  "hex_digit d = ''0123456789abcdef'' ! (d mod 16)"

definition repr_char :: "char \<Rightarrow> char \<Rightarrow> string" where
  "repr_char q c =
     (if c = q \<or> c = CHR 0x5C then [CHR 0x5C, c]
      else if c = CHR 0x09 then [CHR 0x5C, CHR ''t'']
      else if c = CHR 0x0A then [CHR 0x5C, CHR ''n'']
      else if c = CHR 0x0D then [CHR 0x5C, CHR ''r'']
      else if (of_char c :: nat) < 32 \<or> (of_char c :: nat) = 127
      then [CHR 0x5C, CHR ''x'', hex_digit (of_char c div 16), hex_digit (of_char c)]
      else [c])"

definition repr_str :: "string \<Rightarrow> string" where
  "repr_str s =
     (let q = (if CHR 0x27 \<in> set s \<and> CHR 0x22 \<notin> set s then CHR 0x22 else CHR 0x27)
      in [q] @ concat (map (repr_char q) s) @ [q])"

definition validate_no_duplicate :: "ExtractedData \<Rightarrow> string set \<Rightarrow> ValidationResult" where
  "validate_no_duplicate extracted existing_invoice_numbers =
     (if \<not> str_truthy (invoice_number extracted)
      then \<lparr>rule_name = ''duplicate_invoice'', passed = True, score = 1,
             message = Some ''Skipped: no invoice number extracted''\<rparr>
      else if the (invoice_number extracted) \<in> existing_invoice_numbers
      then \<lparr>rule_name = ''duplicate_invoice'', passed = False, score = 0,
             message = Some (''Duplicate invoice number detected: ''
                             @ the (invoice_number extracted))\<rparr>
      else \<lparr>rule_name = ''duplicate_invoice'', passed = True, score = 1,
             message = Some (''Invoice number '' @ repr_str (the (invoice_number extracted))
                             @ '' is unique'')\<rparr>)"

text \<open>\<^verbatim>\<open>RuleEngine.validate\<close>; \<^verbatim>\<open>Validator.validate\<close> passes its arguments on
  unchanged.\<close>

definition validate :: "ExtractedData \<Rightarrow> string set option \<Rightarrow> exn + ValidationResult list" where
  "validate extracted existing_invoice_numbers =
     (case validate_line_items_sum extracted of
        Inl exc \<Rightarrow> Inl exc
      | Inr r1 \<Rightarrow>
          Inr ([r1, validate_tax_id_format extracted, validate_dates extracted]
               @ (case existing_invoice_numbers of
                    None \<Rightarrow> []
                  | Some existing \<Rightarrow> [validate_no_duplicate extracted existing])))"

section \<open>Confidence (\<^verbatim>\<open>app/confidence/confidence.py\<close>)\<close>

record ConfidenceResult =
  overall :: rat
  ocr_score :: rat
  extraction_score :: rat
  validation_score :: rat
  per_field :: "(string \<times> rat) list"

text \<open>Rounding to the nearest integer, a tie to the even one, and \<^verbatim>\<open>round(x, 4)\<close>.\<close>

definition round_half_even :: "rat \<Rightarrow> int" where
  "round_half_even y =
     (let n = \<lfloor>y\<rfloor>; f = y - of_int n
      in if f < 1 / 2 then n
         else if 1 / 2 < f then n + 1
         else if even n then n else n + 1)"

definition round4 :: "rat \<Rightarrow> rat" where
  "round4 x = of_int (round_half_even (x * 10000)) / 10000"

text \<open>Truthiness of the optional mapping of field confidences.\<close>

definition dict_truthy :: "(string \<times> rat) list option \<Rightarrow> bool" where
  "dict_truthy v = (case v of None \<Rightarrow> False | Some kvs \<Rightarrow> kvs \<noteq> [])"

definition compute_confidence ::
  "rat \<Rightarrow> rat \<Rightarrow> ValidationResult list \<Rightarrow> ExtractedData option \<Rightarrow> ConfidenceResult" where
  "compute_confidence ocr_conf extraction_conf validation_results extracted =
     (let ocr_weight = 30 / 100;
          extraction_weight = 40 / 100;
          validation_weight = 30 / 100;
          v_score = (if validation_results \<noteq> []
                     then sum_list (map score validation_results)
                          / of_nat (length validation_results)
                     else 1);
          ov = max 0 (min 1 (ocr_weight * ocr_conf
                             + extraction_weight * extraction_conf
                             + validation_weight * v_score));
          pf = (case extracted of
                  None \<Rightarrow> []
                | Some ex \<Rightarrow>
                    if dict_truthy (field_confidences ex)
                    then map (\<lambda>(k, v). (k, round4 v)) (the (field_confidences ex))
                    else [(''vendor_name'', if vendor_name ex \<noteq> None then 8 / 10 else 0),
                          (''tax_id'', if tax_id ex \<noteq> None then 8 / 10 else 0),
                          (''invoice_number'', if invoice_number ex \<noteq> None then 8 / 10 else 0),
                          (''total_amount'', if total_amount ex \<noteq> None then 8 / 10 else 0),
                          (''invoice_date'', if invoice_date ex \<noteq> None then 8 / 10 else 0),
                          (''due_date'', if due_date ex \<noteq> None then 8 / 10 else 0)])
      in \<lparr>overall = round4 ov, ocr_score = round4 ocr_conf,
          extraction_score = round4 extraction_conf,
          validation_score = round4 v_score, per_field = pf\<rparr>)"

section \<open>The pipeline (\<^verbatim>\<open>app/pipeline/pipeline.py\<close>)\<close>

subsection \<open>The store\<close>

text \<open>
  The rows of \<^verbatim>\<open>app/db/models.py\<close>, without primary keys and timestamps. A document
  id is the string of its UUID. The columns of the rows carry a prefix (\<open>x_\<close>, \<open>v_\<close>,
  \<open>p_\<close>) where their names are those of the fields of the extracted data, of a
  validation result or of a document.
\<close>

type_synonym uuid = string

record Document =
  filename :: string
  content_type :: string
  status :: string

record Extraction =
  x_document_id :: uuid
  x_vendor_name :: "string option"
  x_tax_id :: "string option"
  x_invoice_number :: "string option"
  x_total_amount :: "decimal option"
  x_invoice_date :: "datetime option"
  x_due_date :: "datetime option"
  x_line_items :: "line_item list"
  x_field_confidences :: "(string \<times> rat) list option"
  x_ocr_text :: "string option"
  x_ocr_confidence :: "rat option"
  x_extraction_confidence :: "rat option"

record Validation =
  v_document_id :: uuid
  v_rule_name :: string
  v_passed :: bool
  v_score :: rat
  v_message :: "string option"

record ProcessingEvent =
  p_document_id :: uuid
  step :: string
  p_status :: string
  detail :: "string option"
  duration_ms :: "int option"

record tables =
  documents :: "(uuid \<times> Document) list"
  extractions :: "Extraction list"
  validations :: "Validation list"
  events :: "ProcessingEvent list"

text \<open>
  The session holds the tables as the running transaction sees them (\<open>current\<close>) and
  as the last commit left them (\<open>committed\<close>). An object that is added is visible in
  \<open>current\<close> at once, so \<^verbatim>\<open>flush\<close> changes nothing here; \<^verbatim>\<open>commit\<close> makes the
  current tables the committed ones. The store is reliable: \<^verbatim>\<open>add\<close>, \<^verbatim>\<open>flush\<close>,
  \<^verbatim>\<open>commit\<close> and the query do not raise, and the constraints of the schema (one
  extraction per document) are not enforced.
\<close>

record session =
  current :: tables
  committed :: tables

text \<open>The document with a given id in a table of documents (the first, in a table
  that should hold more than one); \<^verbatim>\<open>session.get(Document, document_id)\<close> looks in the
  current tables.\<close>

definition lookup_document :: "uuid \<Rightarrow> tables \<Rightarrow> Document option" where
  "lookup_document document_id t = map_of (documents t) document_id"

definition flush :: "session \<Rightarrow> session" where
  "flush s = s"

definition commit :: "session \<Rightarrow> session" where
  "commit s = s\<lparr>committed := current s\<rparr>"

text \<open>\<^verbatim>\<open>doc.status = v\<close> for the document fetched under \<open>document_id\<close>.\<close>

definition set_status :: "uuid \<Rightarrow> string \<Rightarrow> session \<Rightarrow> session" where
  "set_status document_id v s =
     s\<lparr>current := (current s)\<lparr>documents :=
          map (\<lambda>(k, doc). if k = document_id then (k, doc\<lparr>status := v\<rparr>) else (k, doc))
            (documents (current s))\<rparr>\<rparr>"

definition add_extraction :: "Extraction \<Rightarrow> session \<Rightarrow> session" where
  "add_extraction x s = s\<lparr>current := (current s)\<lparr>extractions := extractions (current s) @ [x]\<rparr>\<rparr>"

definition add_validation :: "Validation \<Rightarrow> session \<Rightarrow> session" where
  "add_validation v s = s\<lparr>current := (current s)\<lparr>validations := validations (current s) @ [v]\<rparr>\<rparr>"

definition add_event :: "ProcessingEvent \<Rightarrow> session \<Rightarrow> session" where
  "add_event ev s = s\<lparr>current := (current s)\<lparr>events := events (current s) @ [ev]\<rparr>\<rparr>"

subsection \<open>Providers and clock\<close>

text \<open>\<^verbatim>\<open>OCRResult\<close>, with its fields \<^verbatim>\<open>text\<close> and \<^verbatim>\<open>confidence\<close>.\<close>

record OCRResult =
  r_text :: string
  r_confidence :: rat

text \<open>
  What a run of the pipeline takes from outside: the OCR engine (what it returns or
  raises for the bytes), the extraction mode and the generative extractor, and the two
  durations in milliseconds that the monotonic clock measures.
\<close>

record env =
  ocr_engine :: "string \<Rightarrow> exn + OCRResult"
  extraction_mode :: string
  llm_extract :: "string \<Rightarrow> exn + ExtractedData"
  ocr_ms :: int
  extraction_ms :: int

subsection \<open>Audit events\<close>

definition emit_event ::
  "uuid \<Rightarrow> string \<Rightarrow> string \<Rightarrow> string option \<Rightarrow> int option \<Rightarrow> session \<Rightarrow> session" where
  "emit_event document_id stp st dtl dur s =
     flush (add_event \<lparr>p_document_id = document_id, step = stp, p_status = st,
                       detail = dtl, duration_ms = dur\<rparr> s)"

text \<open>\<^verbatim>\<open>_run_step\<close>: \<open>outcome\<close> is what awaiting the coroutine gives, \<open>ms\<close> the measured
  duration.\<close>

definition run_step ::
  "uuid \<Rightarrow> string \<Rightarrow> exn + 'a \<Rightarrow> int \<Rightarrow> session \<Rightarrow> (exn + 'a) \<times> session" where
  "run_step document_id stp outcome ms s =
     (let s1 = emit_event document_id stp ''started'' None None s
      in case outcome of
           Inr result \<Rightarrow> (Inr result, emit_event document_id stp ''completed'' None (Some ms) s1)
         | Inl exc \<Rightarrow>
             (Inl exc, emit_event document_id stp ''failed'' (Some (str_exn exc)) (Some ms) s1))"

text \<open>The format \<^verbatim>\<open>:.3f\<close>.\<close>

definition pad3 :: "nat \<Rightarrow> string" where
  "pad3 n = replicate (3 - length (str_nat n)) CHR ''0'' @ str_nat n"

definition format_3f :: "rat \<Rightarrow> string" where
  "format_3f x =
     (let n = nat (round_half_even (\<bar>x\<bar> * 1000))
      in (if x < 0 then ''-'' else []) @ str_nat (n div 1000) @ ''.'' @ pad3 (n mod 1000))"

subsection \<open>Duplicate detection context\<close>

text \<open>\<^verbatim>\<open>_get_existing_invoice_numbers\<close>: the invoice numbers of the extractions of other
  documents, without the absent and the empty ones.\<close>

definition get_existing_invoice_numbers :: "uuid \<Rightarrow> session \<Rightarrow> string set" where
  "get_existing_invoice_numbers current_document_id s =
     set (concat (map (\<lambda>x. case x_invoice_number x of
                             None \<Rightarrow> []
                           | Some r \<Rightarrow> if x_document_id x \<noteq> current_document_id \<and> r \<noteq> []
                                       then [r] else [])
                      (extractions (current s))))"

subsection \<open>\<^verbatim>\<open>process_document\<close>\<close>

text \<open>The rows written in steps 6 and 7.\<close>

definition extraction_row ::
  "uuid \<Rightarrow> ExtractedData \<Rightarrow> ConfidenceResult \<Rightarrow> OCRResult \<Rightarrow> Extraction" where
  "extraction_row document_id extracted confidence ocr_result =
     \<lparr>x_document_id = document_id,
      x_vendor_name = vendor_name extracted,
      x_tax_id = tax_id extracted,
      x_invoice_number = invoice_number extracted,
      x_total_amount = total_amount extracted,
      x_invoice_date = invoice_date extracted,
      x_due_date = due_date extracted,
      x_line_items = (case line_items extracted of None \<Rightarrow> [] | Some items \<Rightarrow> items),
      x_field_confidences = (if per_field confidence = [] then None
                             else Some (per_field confidence)),
      x_ocr_text = Some (r_text ocr_result),
      x_ocr_confidence = Some (r_confidence ocr_result),
      x_extraction_confidence = Some (extraction_confidence extracted)\<rparr>"

definition validation_row :: "uuid \<Rightarrow> ValidationResult \<Rightarrow> Validation" where
  "validation_row document_id vr =
     \<lparr>v_document_id = document_id, v_rule_name = rule_name vr, v_passed = passed vr,
      v_score = score vr, v_message = message vr\<rparr>"

fun add_validations :: "uuid \<Rightarrow> ValidationResult list \<Rightarrow> session \<Rightarrow> session" where
  "add_validations document_id [] s = s"
| "add_validations document_id (vr # vrs) s =
     add_validations document_id vrs (add_validation (validation_row document_id vr) s)"

text \<open>The final status of a document.\<close>

definition final_status :: "ConfidenceResult \<Rightarrow> ValidationResult list \<Rightarrow> string" where
  "final_status confidence validation_results =
     (let all_passed = list_all passed validation_results
      in if overall confidence < 6 / 10 \<or> \<not> all_passed then ''review'' else ''completed'')"

text \<open>The body of the \<^verbatim>\<open>try\<close> statement, up to the first exception.\<close>

definition try_body :: "env \<Rightarrow> uuid \<Rightarrow> string \<Rightarrow> session \<Rightarrow> (exn + unit) \<times> session" where
  "try_body e document_id pdf_bytes s0 =
     (let s1 = flush (set_status document_id ''processing'' s0);
          (r1, s2) = run_step document_id ''ocr'' (ocr_engine e pdf_bytes) (ocr_ms e) s1
      in case r1 of
           Inl exc \<Rightarrow> (Inl exc, s2)
         | Inr ocr_result \<Rightarrow>
             (let (r2, s3) = run_step document_id ''extraction''
                               (Extractor_extract (extraction_mode e) (llm_extract e)
                                  (r_text ocr_result))
                               (extraction_ms e) s2
              in case r2 of
                   Inl exc \<Rightarrow> (Inl exc, s3)
                 | Inr extracted \<Rightarrow>
                     (let existing_invoice_numbers = get_existing_invoice_numbers document_id s3
                      in case validate extracted (Some existing_invoice_numbers) of
                           Inl exc \<Rightarrow> (Inl exc, s3)
                         | Inr validation_results \<Rightarrow>
                             (let s4 = emit_event document_id ''validation'' ''completed''
                                         (Some (str_nat (length validation_results)
                                                @ '' rules evaluated, ''
                                                @ str_nat (length (filter passed validation_results))
                                                @ '' passed'')) None s3;
                                  confidence = compute_confidence (r_confidence ocr_result)
                                                 (extraction_confidence extracted)
                                                 validation_results (Some extracted);
                                  s5 = emit_event document_id ''confidence'' ''completed''
                                         (Some (''overall='' @ format_3f (overall confidence)))
                                         None s4;
                                  s6 = add_extraction
                                         (extraction_row document_id extracted confidence ocr_result)
                                         s5;
                                  s7 = add_validations document_id validation_results s6;
                                  final = final_status confidence validation_results;
                                  s8 = commit (set_status document_id final s7);
                                  s9 = emit_event document_id ''completed'' ''completed''
                                         (Some (''final_status='' @ final @ '' confidence=''
                                                @ format_3f (overall confidence)))
                                         None s8
                              in (Inr (), commit s9)))))"

text \<open>The \<^verbatim>\<open>except\<close> clause.\<close>

definition on_exception :: "uuid \<Rightarrow> session \<Rightarrow> session" where
  "on_exception document_id s =
     commit (emit_event document_id ''failed'' ''failed'' (Some ''Unhandled exception'') None
               (commit (set_status document_id ''failed'' s)))"

definition process_document :: "env \<Rightarrow> uuid \<Rightarrow> string \<Rightarrow> session \<Rightarrow> (exn + unit) \<times> session" where
  "process_document e document_id pdf_bytes s =
     (case lookup_document document_id (current s) of
        None \<Rightarrow> (Inl (ValueError (''Document '' @ document_id @ '' not found'')), s)
      | Some doc \<Rightarrow>
          if status doc = ''completed'' then (Inr (), s)
          else (case try_body e document_id pdf_bytes s of
                  (Inr u, s') \<Rightarrow> (Inr u, s')
                | (Inl exc, s') \<Rightarrow> (Inl exc, on_exception document_id s')))"

section \<open>Notions used in the statements\<close>

text \<open>The line items of extracted data are well-formed when the total of every
  \<^verbatim>\<open>dict\<close> item, if there is one, is a decimal.\<close>

definition decimal_totals :: "ExtractedData \<Rightarrow> bool" where
  "decimal_totals extracted =
     (case line_items extracted of
        None \<Rightarrow> True
      | Some items \<Rightarrow>
          list_all (\<lambda>i. case i of NonDict \<Rightarrow> True
                              | DictItem d t \<Rightarrow> t \<noteq> Some NonNumeric) items)"

text \<open>The amount a line item contributes to the sum of the totals.\<close>

definition item_amount :: "line_item \<Rightarrow> rat" where
  "item_amount i =
     (case i of
        NonDict \<Rightarrow> 0
      | DictItem d t \<Rightarrow> (case t of Some (Amount x) \<Rightarrow> dec_val x | _ \<Rightarrow> 0))"

subsection \<open>Sample inputs\<close>

text \<open>An invoice with a short tax id whose two line items (100.00 and 150.00) do not
  add up to its total (300.00).\<close>

definition sample_invoice :: ExtractedData where
  "sample_invoice =
     \<lparr>vendor_name = Some ''Acme Corp'', tax_id = Some ''123'',
      invoice_number = Some ''INV-1'',
      total_amount = Some \<lparr>coeff = 30000, expo = - 2\<rparr>,
      invoice_date = None, due_date = None,
      line_items = Some [DictItem ''Item 1'' (Some (Amount \<lparr>coeff = 10000, expo = - 2\<rparr>)),
                         DictItem ''Item 2'' (Some (Amount \<lparr>coeff = 15000, expo = - 2\<rparr>))],
      extraction_confidence = 7 / 10, field_confidences = None\<rparr>"

text \<open>The text of an invoice with one line item of 5.00 and a total of zero.\<close>

definition zero_total_text :: string where
  "zero_total_text = ''Item 1: $5.00'' @ [CHR 0x0A] @ ''Total: $0''"

text \<open>A text whose last total line with a currency marker names no amount.\<close>

definition no_amount_text :: string where
  "no_amount_text = ''Total: $5'' @ [CHR 0x0A] @ ''Totals in US$''"

text \<open>A generative extractor that is down: every call raises.\<close>

definition failing_llm :: "string \<Rightarrow> exn + ExtractedData" where
  "failing_llm ocr_text = Inl (ProviderError ''connection refused'')"

text \<open>A run of the pipeline: the OCR engine reads one line, the extractor works with
  patterns, and the store holds one pending document and nothing else.\<close>

definition sample_ocr_result :: OCRResult where
  "sample_ocr_result = \<lparr>r_text = ''Vendor: A'', r_confidence = 85 / 100\<rparr>"

definition sample_env :: env where
  "sample_env =
     \<lparr>ocr_engine = (\<lambda>pdf_bytes. Inr sample_ocr_result),
      extraction_mode = ''simple'',
      llm_extract = failing_llm,
      ocr_ms = 12,
      extraction_ms = 3\<rparr>"

definition sample_tables :: tables where
  "sample_tables =
     \<lparr>documents = [(''d1'', \<lparr>filename = ''invoice.pdf'', content_type = ''application/pdf'',
                              status = ''pending''\<rparr>)],
      extractions = [], validations = [], events = []\<rparr>"

definition sample_session :: session where
  "sample_session = \<lparr>current = sample_tables, committed = sample_tables\<rparr>"

text \<open>What the extractor makes of the line, and the results of the four rules on it.\<close>

definition vendor_only :: ExtractedData where
  "vendor_only =
     \<lparr>vendor_name = Some ''A'', tax_id = None, invoice_number = None, total_amount = None,
      invoice_date = None, due_date = None, line_items = Some [],
      extraction_confidence = 7 / 10,
      field_confidences =
        Some [(''vendor_name'', 8 / 10), (''tax_id'', 0), (''invoice_number'', 0),
              (''total_amount'', 0), (''invoice_date'', 0), (''due_date'', 0)]\<rparr>"

definition all_skipped :: "ValidationResult list" where
  "all_skipped =
     [\<lparr>rule_name = ''line_items_sum'', passed = True, score = 1,
       message = Some ''Skipped: no line items or total''\<rparr>,
      \<lparr>rule_name = ''tax_id_format'', passed = True, score = 1,
       message = Some ''Skipped: no tax ID''\<rparr>,
      \<lparr>rule_name = ''date_consistency'', passed = True, score = 1,
       message = Some ''Skipped: no invoice date''\<rparr>,
      \<lparr>rule_name = ''duplicate_invoice'', passed = True, score = 1,
       message = Some ''Skipped: no invoice number extracted''\<rparr>]"


text \<open>A store whose document is completed, with the audit trail of its run.\<close>

definition completed_tables :: tables where
  "completed_tables =
     \<lparr>documents = [(''d1'', \<lparr>filename = ''invoice.pdf'', content_type = ''application/pdf'',
                              status = ''completed''\<rparr>)],
      extractions = [], validations = [],
      events = [\<lparr>p_document_id = ''d1'', step = ''completed'', p_status = ''completed'',
                 detail = None, duration_ms = None\<rparr>]\<rparr>"

definition completed_session :: session where
  "completed_session = \<lparr>current = completed_tables, committed = completed_tables\<rparr>"

section \<open>Properties of the confidence aggregator\<close>









section \<open>Properties of the decimal arithmetic\<close>

lemma rescale_val:
  assumes "e \<le> expo d"
  shows "of_int (rescale d e) * 10 powi e = dec_val d"
proof -
  have "(10::rat) powi (expo d - e) * 10 powi e = 10 powi expo d"
    by (simp flip: power_int_add)
  moreover have "(10::rat) ^ nat (expo d - e) = 10 powi (expo d - e)"
    using assms by (simp add: power_int_def)
  ultimately show ?thesis
    by (simp add: rescale_def dec_val_def mult.assoc)
qed

lemma dec_add_val: "dec_val (dec_add a b) = dec_val a + dec_val b"
proof -
  let ?e = "min (expo a) (expo b)"
  have "dec_val (dec_add a b) = of_int (rescale a ?e + rescale b ?e) * 10 powi ?e"
    by (simp add: dec_add_def dec_val_def Let_def)
  also have "\<dots> = of_int (rescale a ?e) * 10 powi ?e + of_int (rescale b ?e) * 10 powi ?e"
    by (simp add: distrib_right)
  also have "\<dots> = dec_val a + dec_val b"
    by (simp add: rescale_val)
  finally show ?thesis .
qed

lemma dec_sub_val: "dec_val (dec_sub a b) = dec_val a - dec_val b"
proof -
  let ?e = "min (expo a) (expo b)"
  have "dec_val (dec_sub a b) = of_int (rescale a ?e - rescale b ?e) * 10 powi ?e"
    by (simp add: dec_sub_def dec_val_def Let_def)
  also have "\<dots> = of_int (rescale a ?e) * 10 powi ?e - of_int (rescale b ?e) * 10 powi ?e"
    by (simp add: left_diff_distrib)
  also have "\<dots> = dec_val a - dec_val b"
    by (simp add: rescale_val)
  finally show ?thesis .
qed

lemma dec_abs_val: "dec_val (dec_abs a) = \<bar>dec_val a\<bar>"
  by (simp add: dec_abs_def dec_val_def abs_mult)

lemma dec_le_val: "dec_le a b \<longleftrightarrow> dec_val a \<le> dec_val b"
proof -
  let ?e = "min (expo a) (expo b)"
  have pos: "(0::rat) < 10 powi ?e" by simp
  have "dec_le a b \<longleftrightarrow> (of_int (rescale a ?e) :: rat) \<le> of_int (rescale b ?e)"
    by (simp add: dec_le_def Let_def)
  also have "\<dots> \<longleftrightarrow> (of_int (rescale a ?e) :: rat) * 10 powi ?e
                        \<le> of_int (rescale b ?e) * 10 powi ?e"
    using pos by (simp only: mult_le_cancel_right_pos)
  also have "\<dots> \<longleftrightarrow> dec_val a \<le> dec_val b"
    by (simp add: rescale_val)
  finally show ?thesis .
qed

lemma dec_truthy_val: "dec_truthy a \<longleftrightarrow> dec_val a \<noteq> 0"
  by (simp add: dec_truthy_def dec_val_def)

lemma dec_zero_val: "dec_val dec_zero = 0"
  by (simp add: dec_zero_def dec_val_def)

lemma tolerance_val: "dec_val tolerance = 1 / 100"
  by (simp add: tolerance_def dec_val_def power_int_minus)

section \<open>Properties of the rule engine\<close>

subsection \<open>The sum of the line items\<close>

lemma item_Decimal_returns:
  "t \<noteq> Some NonNumeric \<Longrightarrow> \<exists>v. item_Decimal t = Inr v"
  by (auto simp: item_Decimal_def split: option.splits total_value.splits)

lemma sum_totals_returns:
  "list_all (\<lambda>i. case i of NonDict \<Rightarrow> True | DictItem d t \<Rightarrow> t \<noteq> Some NonNumeric) items
   \<Longrightarrow> \<exists>c. sum_totals items acc = Inr c"
proof (induction items arbitrary: acc)
  case Nil
  then show ?case by simp
next
  case (Cons i items)
  show ?case
  proof (cases i)
    case NonDict
    then show ?thesis using Cons by simp
  next
    case (DictItem d t)
    then have "t \<noteq> Some NonNumeric" using Cons.prems by simp
    then obtain v where v: "item_Decimal t = Inr v"
      using item_Decimal_returns by blast
    show ?thesis using Cons DictItem v by simp
  qed
qed

text \<open>The sum is exact: its value is the sum of the values of the totals.\<close>

lemma sum_totals_val:
  "sum_totals items acc = Inr c \<Longrightarrow> dec_val c = dec_val acc + sum_list (map item_amount items)"
proof (induction items arbitrary: acc)
  case Nil
  then show ?case by simp
next
  case (Cons i items)
  show ?case
  proof (cases i)
    case NonDict
    then show ?thesis using Cons by (simp add: item_amount_def)
  next
    case (DictItem d t)
    then obtain v where v: "item_Decimal t = Inr v" and rest: "sum_totals items (dec_add acc v) = Inr c"
      using Cons.prems by (auto split: sum.splits)
    have "dec_val v = item_amount i"
      using v DictItem
      by (auto simp: item_Decimal_def item_amount_def dec_zero_val
               split: option.splits total_value.splits)
    then show ?thesis using Cons.IH [OF rest] by (simp add: dec_add_val)
  qed
qed

lemma validate_line_items_sum_returns:
  assumes "decimal_totals e"
  shows "\<exists>r. validate_line_items_sum e = Inr r \<and> rule_name r = ''line_items_sum''"
proof (cases "\<not> items_truthy (line_items e) \<or> \<not> decimal_truthy (total_amount e)")
  case True
  then show ?thesis by (auto simp: validate_line_items_sum_def)
next
  case False
  then obtain items where items: "line_items e = Some items"
    by (cases "line_items e") (auto simp: items_truthy_def)
  have "list_all (\<lambda>i. case i of NonDict \<Rightarrow> True | DictItem d t \<Rightarrow> t \<noteq> Some NonNumeric) items"
    using assms items by (simp add: decimal_totals_def)
  then obtain c where "sum_totals items dec_zero = Inr c"
    using sum_totals_returns by blast
  then show ?thesis using False items by (simp add: validate_line_items_sum_def)
qed

text \<open>
  What the rule does. It skips when there are no line items, or when the total amount
  is absent \<^emph>\<open>or zero\<close>; otherwise it compares the exact sum of the totals with the
  total amount, at a tolerance of 0.01.
\<close>

lemma line_items_sum_rule:
  assumes ok: "decimal_totals e" and r: "validate_line_items_sum e = Inr r"
  shows "(line_items e = None \<or> line_items e = Some [] \<or> total_amount e = None
            \<or> (\<exists>t. total_amount e = Some t \<and> dec_val t = 0)
          \<longrightarrow> r = \<lparr>rule_name = ''line_items_sum'', passed = True, score = 1,
                     message = Some ''Skipped: no line items or total''\<rparr>)
       \<and> (\<forall>items t. line_items e = Some items \<and> items \<noteq> [] \<and> total_amount e = Some t
              \<and> dec_val t \<noteq> 0 \<longrightarrow>
            (if \<bar>sum_list (map item_amount items) - dec_val t\<bar> \<le> 1 / 100
             then passed r \<and> score r = 1
             else \<not> passed r \<and> score r = 0
                  \<and> (\<exists>c. dec_val c = sum_list (map item_amount items)
                       \<and> message r = Some (''Line items sum ('' @ str_Decimal c
                                            @ '') does not match total (''
                                            @ str_Decimal t @ '')''))))"
proof (intro conjI impI allI)
  assume "line_items e = None \<or> line_items e = Some [] \<or> total_amount e = None
            \<or> (\<exists>t. total_amount e = Some t \<and> dec_val t = 0)"
  then have "\<not> items_truthy (line_items e) \<or> \<not> decimal_truthy (total_amount e)"
    by (auto simp: items_truthy_def decimal_truthy_def dec_truthy_val)
  then show "r = \<lparr>rule_name = ''line_items_sum'', passed = True, score = 1,
                  message = Some ''Skipped: no line items or total''\<rparr>"
    using r by (auto simp: validate_line_items_sum_def)
next
  fix items t
  assume a: "line_items e = Some items \<and> items \<noteq> [] \<and> total_amount e = Some t \<and> dec_val t \<noteq> 0"
  then have go: "\<not> (\<not> items_truthy (line_items e) \<or> \<not> decimal_truthy (total_amount e))"
    by (simp add: items_truthy_def decimal_truthy_def dec_truthy_val)
  obtain c where c: "sum_totals items dec_zero = Inr c"
    using r a go by (cases "sum_totals items dec_zero") (auto simp: validate_line_items_sum_def)
  have cv: "dec_val c = sum_list (map item_amount items)"
    using sum_totals_val [OF c] by (simp add: dec_zero_val)
  have le: "dec_le (dec_abs (dec_sub c t)) tolerance
              \<longleftrightarrow> \<bar>sum_list (map item_amount items) - dec_val t\<bar> \<le> 1 / 100"
    by (simp add: dec_le_val dec_abs_val dec_sub_val tolerance_val cv)
  show "if \<bar>sum_list (map item_amount items) - dec_val t\<bar> \<le> 1 / 100
        then passed r \<and> score r = 1
        else \<not> passed r \<and> score r = 0
             \<and> (\<exists>c. dec_val c = sum_list (map item_amount items)
                  \<and> message r = Some (''Line items sum ('' @ str_Decimal c
                                       @ '') does not match total (''
                                       @ str_Decimal t @ '')''))"
  proof (cases "\<bar>sum_list (map item_amount items) - dec_val t\<bar> \<le> 1 / 100")
    case True
    then show ?thesis
      using r a go c le by (auto simp: validate_line_items_sum_def)
  next
    case False
    then have "r = \<lparr>rule_name = ''line_items_sum'', passed = False, score = 0,
                     message = Some (''Line items sum ('' @ str_Decimal c
                                     @ '') does not match total ('' @ str_Decimal t @ '')'')\<rparr>"
      using r a go c le by (auto simp: validate_line_items_sum_def)
    then show ?thesis using False cv by auto
  qed
qed

subsection \<open>Names and scores of the four rules\<close>

lemma line_items_sum_scores:
  "validate_line_items_sum e = Inr r \<Longrightarrow>
     rule_name r = ''line_items_sum''
     \<and> (passed r \<and> score r = 1 \<or> \<not> passed r \<and> score r = 0)"
  by (auto simp: validate_line_items_sum_def split: if_splits sum.splits)

lemma tax_id_scores:
  "rule_name (validate_tax_id_format e) = ''tax_id_format'' \<and>
   (passed (validate_tax_id_format e) \<and> score (validate_tax_id_format e) = 1
    \<or> \<not> passed (validate_tax_id_format e) \<and> score (validate_tax_id_format e) = 1 / 2)"
  by (simp add: validate_tax_id_format_def Let_def)

lemma dates_scores:
  "rule_name (validate_dates e) = ''date_consistency'' \<and>
   (passed (validate_dates e) \<and> score (validate_dates e) = 1
    \<or> \<not> passed (validate_dates e) \<and> score (validate_dates e) = 0)"
  by (simp add: validate_dates_def split: option.splits)

lemma no_duplicate_scores:
  "rule_name (validate_no_duplicate e s) = ''duplicate_invoice'' \<and>
   (passed (validate_no_duplicate e s) \<and> score (validate_no_duplicate e s) = 1
    \<or> \<not> passed (validate_no_duplicate e s) \<and> score (validate_no_duplicate e s) = 0)"
  by (simp add: validate_no_duplicate_def)

subsection \<open>The rules on the sample invoice\<close>

lemma str_Decimal_25000: "str_Decimal \<lparr>coeff = 25000, expo = - 2\<rparr> = ''250.00''"
  by (simp add: str_Decimal_def Let_def str_nat.simps digit_char_def)

lemma str_Decimal_30000: "str_Decimal \<lparr>coeff = 30000, expo = - 2\<rparr> = ''300.00''"
  by (simp add: str_Decimal_def Let_def str_nat.simps digit_char_def)

lemma sample_line_items_sum:
  "validate_line_items_sum sample_invoice =
     Inr \<lparr>rule_name = ''line_items_sum'', passed = False, score = 0,
          message = Some ''Line items sum (250.00) does not match total (300.00)''\<rparr>"
proof -
  have s: "sum_totals [DictItem ''Item 1'' (Some (Amount \<lparr>coeff = 10000, expo = - 2\<rparr>)),
                       DictItem ''Item 2'' (Some (Amount \<lparr>coeff = 15000, expo = - 2\<rparr>))] dec_zero
           = Inr \<lparr>coeff = 25000, expo = - 2\<rparr>"
    by (simp add: item_Decimal_def dec_zero_def dec_add_def rescale_def)
  have d: "\<not> dec_le (dec_abs (dec_sub \<lparr>coeff = 25000, expo = - 2\<rparr> \<lparr>coeff = 30000, expo = - 2\<rparr>))
                 tolerance"
    by (simp add: dec_le_def dec_abs_def dec_sub_def tolerance_def rescale_def)
  show ?thesis
    using s d
    by (simp add: validate_line_items_sum_def sample_invoice_def items_truthy_def
          decimal_truthy_def dec_truthy_def str_Decimal_25000 str_Decimal_30000)
qed

lemma sample_validate:
  "validate sample_invoice (Some {''INV-1''}) =
     Inr [\<lparr>rule_name = ''line_items_sum'', passed = False, score = 0,
           message = Some ''Line items sum (250.00) does not match total (300.00)''\<rparr>,
          \<lparr>rule_name = ''tax_id_format'', passed = False, score = 1 / 2,
           message = Some ''Tax ID format may be invalid: 123''\<rparr>,
          \<lparr>rule_name = ''date_consistency'', passed = True, score = 1,
           message = Some ''Skipped: no invoice date''\<rparr>,
          \<lparr>rule_name = ''duplicate_invoice'', passed = False, score = 0,
           message = Some ''Duplicate invoice number detected: INV-1''\<rparr>]"
proof -
  have t: "validate_tax_id_format sample_invoice =
             \<lparr>rule_name = ''tax_id_format'', passed = False, score = 1 / 2,
              message = Some ''Tax ID format may be invalid: 123''\<rparr>"
    by (simp add: validate_tax_id_format_def sample_invoice_def str_truthy_def remove_char_def
          Let_def)
  have d: "validate_dates sample_invoice =
             \<lparr>rule_name = ''date_consistency'', passed = True, score = 1,
              message = Some ''Skipped: no invoice date''\<rparr>"
    by (simp add: validate_dates_def sample_invoice_def)
  have n: "validate_no_duplicate sample_invoice {''INV-1''} =
             \<lparr>rule_name = ''duplicate_invoice'', passed = False, score = 0,
              message = Some ''Duplicate invoice number detected: INV-1''\<rparr>"
    by (simp add: validate_no_duplicate_def sample_invoice_def str_truthy_def)
  show ?thesis
    by (simp add: validate_def sample_line_items_sum t d n)
qed

lemma sample_decimal_totals: "decimal_totals sample_invoice"
  by (simp add: decimal_totals_def sample_invoice_def)

subsection \<open>Claims C9 and C5\<close>

text \<open>
  Claim C9. Every result that \<open>validate\<close> returns, for every input and every rule,
  has score 1 if it passed and score 0 or 0.5 if it did not; so its score is one of
  0, 0.5 and 1, and it passed exactly when its score is 1.
\<close>

theorem validate_scores:
  assumes "validate e existing = Inr rs" and "r \<in> set rs"
  shows "(passed r \<longrightarrow> score r = 1) \<and> (\<not> passed r \<longrightarrow> score r = 0 \<or> score r = 1 / 2)
         \<and> score r \<in> {0, 1 / 2, 1} \<and> (passed r \<longleftrightarrow> score r = 1)"
proof -
  obtain r1 where r1: "validate_line_items_sum e = Inr r1"
    using assms(1) by (cases "validate_line_items_sum e") (auto simp: validate_def)
  have rs: "rs = [r1, validate_tax_id_format e, validate_dates e]
              @ (case existing of None \<Rightarrow> [] | Some s \<Rightarrow> [validate_no_duplicate e s])"
    using assms(1) r1 by (simp add: validate_def)
  have "passed r \<and> score r = 1 \<or> \<not> passed r \<and> (score r = 0 \<or> score r = 1 / 2)"
    using assms(2) rs line_items_sum_scores [OF r1] tax_id_scores [of e] dates_scores [of e]
      no_duplicate_scores [of e]
    by (cases existing) auto
  then show ?thesis by auto
qed

text \<open>On the sample invoice, the tax id rule fails with score 0.5.\<close>

theorem validate_scores_witness:
  "validate sample_invoice (Some {''INV-1''}) =
     Inr [\<lparr>rule_name = ''line_items_sum'', passed = False, score = 0,
           message = Some ''Line items sum (250.00) does not match total (300.00)''\<rparr>,
          \<lparr>rule_name = ''tax_id_format'', passed = False, score = 1 / 2,
           message = Some ''Tax ID format may be invalid: 123''\<rparr>,
          \<lparr>rule_name = ''date_consistency'', passed = True, score = 1,
           message = Some ''Skipped: no invoice date''\<rparr>,
          \<lparr>rule_name = ''duplicate_invoice'', passed = False, score = 0,
           message = Some ''Duplicate invoice number detected: INV-1''\<rparr>]
   \<and> score \<lparr>rule_name = ''tax_id_format'', passed = False, score = 1 / 2,
             message = Some ''Tax ID format may be invalid: 123''\<rparr> \<in> {0, 1 / 2, 1 :: rat}"
proof -
  let ?r = "\<lparr>rule_name = ''tax_id_format'', passed = False, score = 1 / 2,
             message = Some ''Tax ID format may be invalid: 123''\<rparr>"
  let ?rs = "[\<lparr>rule_name = ''line_items_sum'', passed = False, score = 0,
           message = Some ''Line items sum (250.00) does not match total (300.00)''\<rparr>,
          ?r,
          \<lparr>rule_name = ''date_consistency'', passed = True, score = 1,
           message = Some ''Skipped: no invoice date''\<rparr>,
          \<lparr>rule_name = ''duplicate_invoice'', passed = False, score = 0,
           message = Some ''Duplicate invoice number detected: INV-1''\<rparr>]"
  have h1: "validate sample_invoice (Some {''INV-1''}) = Inr ?rs"
    by (rule sample_validate)
  have h2: "?r \<in> set ?rs" by simp
  from validate_scores [OF h1 h2] have "score ?r \<in> {0, 1 / 2, 1}" by blast
  with h1 show ?thesis by blast
qed

text \<open>
  Claim C5. Without a set of existing invoice numbers, a list of results that
  \<open>validate\<close> returns has no result named \<open>duplicate_invoice\<close>. With a set, it has
  exactly one, which passes with score 1 if no invoice number was extracted (the field
  is absent or empty), fails with score 0 if the extracted number is in the set, and
  passes with score 1 otherwise. And \<open>validate\<close> does return a list, with or without a
  set, for all extracted data whose line-item totals are decimals.
\<close>

theorem validate_duplicate_rule:
  "(\<forall>rs. validate e None = Inr rs
          \<longrightarrow> filter (\<lambda>r. rule_name r = ''duplicate_invoice'') rs = [])
   \<and> (\<forall>rs. validate e (Some existing) = Inr rs
          \<longrightarrow> (\<exists>d. filter (\<lambda>r. rule_name r = ''duplicate_invoice'') rs = [d]
                \<and> (if invoice_number e = None \<or> invoice_number e = Some []
                   then passed d \<and> score d = 1
                   else if the (invoice_number e) \<in> existing
                   then \<not> passed d \<and> score d = 0
                   else passed d \<and> score d = 1)))
   \<and> (decimal_totals e
          \<longrightarrow> (\<exists>rs. validate e None = Inr rs) \<and> (\<exists>rs. validate e (Some existing) = Inr rs))"
proof (intro conjI allI impI)
  fix rs
  assume v: "validate e None = Inr rs"
  then obtain r1 where r1: "validate_line_items_sum e = Inr r1"
    by (cases "validate_line_items_sum e") (auto simp: validate_def)
  have "rs = [r1, validate_tax_id_format e, validate_dates e]"
    using v r1 by (simp add: validate_def)
  then show "filter (\<lambda>r. rule_name r = ''duplicate_invoice'') rs = []"
    using line_items_sum_scores [OF r1] tax_id_scores [of e] dates_scores [of e] by simp
next
  fix rs
  assume v: "validate e (Some existing) = Inr rs"
  then obtain r1 where r1: "validate_line_items_sum e = Inr r1"
    by (cases "validate_line_items_sum e") (auto simp: validate_def)
  let ?d = "validate_no_duplicate e existing"
  have "rs = [r1, validate_tax_id_format e, validate_dates e, ?d]"
    using v r1 by (simp add: validate_def)
  then have f: "filter (\<lambda>r. rule_name r = ''duplicate_invoice'') rs = [?d]"
    using line_items_sum_scores [OF r1] tax_id_scores [of e] dates_scores [of e]
      no_duplicate_scores [of e existing]
    by simp
  have d: "(if invoice_number e = None \<or> invoice_number e = Some []
            then passed ?d \<and> score ?d = 1
            else if the (invoice_number e) \<in> existing
            then \<not> passed ?d \<and> score ?d = 0
            else passed ?d \<and> score ?d = 1)"
    by (cases "invoice_number e") (auto simp: validate_no_duplicate_def str_truthy_def)
  show "\<exists>d. filter (\<lambda>r. rule_name r = ''duplicate_invoice'') rs = [d]
          \<and> (if invoice_number e = None \<or> invoice_number e = Some []
             then passed d \<and> score d = 1
             else if the (invoice_number e) \<in> existing
             then \<not> passed d \<and> score d = 0
             else passed d \<and> score d = 1)"
    using f d by blast
next
  assume "decimal_totals e"
  then obtain r1 where "validate_line_items_sum e = Inr r1"
    using validate_line_items_sum_returns by blast
  then show "\<exists>rs. validate e None = Inr rs" "\<exists>rs. validate e (Some existing) = Inr rs"
    by (simp_all add: validate_def)
qed

text \<open>On the sample invoice, whose number is in the set, the duplicate rule fails.\<close>

theorem validate_duplicate_rule_witness:
  "decimal_totals sample_invoice
   \<and> (\<exists>rs. validate sample_invoice None = Inr rs)
   \<and> (\<exists>rs d. validate sample_invoice (Some {''INV-1''}) = Inr rs
         \<and> filter (\<lambda>r. rule_name r = ''duplicate_invoice'') rs = [d]
         \<and> \<not> passed d \<and> score d = 0)"
proof -
  have inv: "invoice_number sample_invoice = Some ''INV-1''"
    by (simp add: sample_invoice_def)
  from validate_duplicate_rule [of sample_invoice "{''INV-1''}"]
  show ?thesis using sample_decimal_totals sample_validate by (simp add: inv)
qed

section \<open>Evaluating the pattern-based extractor\<close>

lemmas char_defs = is_digit_def is_space_def is_sep_def is_digit_or_comma_def lower_char_def

lemmas string_defs = lower_def strip_def after_first_colon_def after_last_dollar_def
  remove_char_def nat_of_digits_def digit_val_def

lemmas cue_defs = has_colon_def vendor_cue_def tax_id_cue_def invoice_number_cue_def
  invoice_date_cue_def due_date_cue_def total_cue_def field_value_def raw_date_def
  amount_str_def

lemmas scan_defs = scan_line_def scan_vendor_name_def scan_tax_id_def scan_invoice_number_def
  scan_invoice_date_def scan_due_date_def scan_total_amount_def scan_line_item_def
  detect_item_def item_match_def rest_match_def Decimal_def parse_decimal_def parse_date_def

lemma zero_total_lines: "split_lines zero_total_text = [''Item 1: $5.00'', ''Total: $0'']"
  by (simp add: zero_total_text_def)

lemma scan_item_line:
  "scan_line ''Item 1: $5.00'' scan_init =
     scan_init\<lparr>s_line_items := [DictItem ''Item 1'' (Some (Amount \<lparr>coeff = 500, expo = - 2\<rparr>))]\<rparr>"
  by (simp add: scan_defs scan_init_def cue_defs string_defs char_defs Let_def)

lemma scan_zero_total_line:
  "scan_line ''Total: $0'' st = st\<lparr>s_total_amount := Some \<lparr>coeff = 0, expo = 0\<rparr>\<rparr>"
  by (simp add: scan_defs cue_defs string_defs char_defs Let_def)

lemma zero_total_extract:
  "simple_extract zero_total_text =
     \<lparr>vendor_name = None, tax_id = None, invoice_number = None,
      total_amount = Some \<lparr>coeff = 0, expo = 0\<rparr>, invoice_date = None, due_date = None,
      line_items = Some [DictItem ''Item 1'' (Some (Amount \<lparr>coeff = 500, expo = - 2\<rparr>))],
      extraction_confidence = 7 / 10,
      field_confidences =
        Some [(''vendor_name'', 0), (''tax_id'', 0), (''invoice_number'', 0),
              (''total_amount'', 0), (''invoice_date'', 0), (''due_date'', 0)]\<rparr>"
proof -
  have "scan_lines (split_lines zero_total_text) scan_init =
          scan_init\<lparr>s_line_items :=
                       [DictItem ''Item 1'' (Some (Amount \<lparr>coeff = 500, expo = - 2\<rparr>))],
                    s_total_amount := Some \<lparr>coeff = 0, expo = 0\<rparr>\<rparr>"
    by (simp add: zero_total_lines scan_item_line scan_zero_total_line)
  then show ?thesis
    by (simp add: simple_extract_def finish_def scan_init_def str_truthy_def
          decimal_truthy_def dec_truthy_def)
qed

text \<open>
  Claim C6 at an invoice text with a line item of 5.00 and a total of zero. The
  extractor finds the line item and the total; the sum of the line items differs from
  the total by 5.00, yet the rule returns its skip result: a total of zero is taken
  for no total.
\<close>

theorem line_items_sum_zero_total:
  "line_items (simple_extract zero_total_text)
     = Some [DictItem ''Item 1'' (Some (Amount \<lparr>coeff = 500, expo = - 2\<rparr>))]
   \<and> total_amount (simple_extract zero_total_text) = Some \<lparr>coeff = 0, expo = 0\<rparr>
   \<and> validate_line_items_sum (simple_extract zero_total_text)
     = Inr \<lparr>rule_name = ''line_items_sum'', passed = True, score = 1,
            message = Some ''Skipped: no line items or total''\<rparr>"
  by (simp add: zero_total_extract validate_line_items_sum_def items_truthy_def
        decimal_truthy_def dec_truthy_def)

text \<open>So the rule passes an invoice whose line items and total differ.\<close>

theorem line_items_sum_zero_total_witness:
  "\<exists>r. validate_line_items_sum (simple_extract zero_total_text) = Inr r
       \<and> passed r \<and> score r = 1"
  using line_items_sum_zero_total by simp

section \<open>Properties of the pattern-based extractor\<close>

subsection \<open>What one pass of the loop does to each field\<close>

lemma find_snoc:
  "find P (xs @ [x]) = (case find P xs of None \<Rightarrow> (if P x then Some x else None) | Some y \<Rightarrow> Some y)"
  by (induction xs) auto

lemma scan_vendor_name_sel:
  "s_vendor_name (scan_vendor_name l st) =
     (if vendor_cue l \<and> has_colon l then Some (field_value l) else s_vendor_name st)"
  "s_tax_id (scan_vendor_name l st) = s_tax_id st"
  "s_invoice_number (scan_vendor_name l st) = s_invoice_number st"
  "s_invoice_date (scan_vendor_name l st) = s_invoice_date st"
  "s_due_date (scan_vendor_name l st) = s_due_date st"
  "s_total_amount (scan_vendor_name l st) = s_total_amount st"
  by (simp_all add: scan_vendor_name_def)

lemma scan_tax_id_sel:
  "s_vendor_name (scan_tax_id l st) = s_vendor_name st"
  "s_tax_id (scan_tax_id l st) =
     (if tax_id_cue l \<and> has_colon l then Some (field_value l) else s_tax_id st)"
  "s_invoice_number (scan_tax_id l st) = s_invoice_number st"
  "s_invoice_date (scan_tax_id l st) = s_invoice_date st"
  "s_due_date (scan_tax_id l st) = s_due_date st"
  "s_total_amount (scan_tax_id l st) = s_total_amount st"
  by (simp_all add: scan_tax_id_def)

lemma scan_invoice_number_sel:
  "s_vendor_name (scan_invoice_number l st) = s_vendor_name st"
  "s_tax_id (scan_invoice_number l st) = s_tax_id st"
  "s_invoice_number (scan_invoice_number l st) =
     (if invoice_number_cue l \<and> has_colon l then Some (field_value l) else s_invoice_number st)"
  "s_invoice_date (scan_invoice_number l st) = s_invoice_date st"
  "s_due_date (scan_invoice_number l st) = s_due_date st"
  "s_total_amount (scan_invoice_number l st) = s_total_amount st"
  by (simp_all add: scan_invoice_number_def)

lemma scan_invoice_date_sel:
  "s_vendor_name (scan_invoice_date l st) = s_vendor_name st"
  "s_tax_id (scan_invoice_date l st) = s_tax_id st"
  "s_invoice_number (scan_invoice_date l st) = s_invoice_number st"
  "s_invoice_date (scan_invoice_date l st) =
     (if invoice_date_cue l \<and> s_invoice_date st = None then parse_date (Some (raw_date l))
      else s_invoice_date st)"
  "s_due_date (scan_invoice_date l st) = s_due_date st"
  "s_total_amount (scan_invoice_date l st) = s_total_amount st"
  by (simp_all add: scan_invoice_date_def)

lemma scan_due_date_sel:
  "s_vendor_name (scan_due_date l st) = s_vendor_name st"
  "s_tax_id (scan_due_date l st) = s_tax_id st"
  "s_invoice_number (scan_due_date l st) = s_invoice_number st"
  "s_invoice_date (scan_due_date l st) = s_invoice_date st"
  "s_due_date (scan_due_date l st) =
     (if due_date_cue l then parse_date (Some (raw_date l)) else s_due_date st)"
  "s_total_amount (scan_due_date l st) = s_total_amount st"
  by (simp_all add: scan_due_date_def)

lemma scan_total_amount_sel:
  "s_vendor_name (scan_total_amount l st) = s_vendor_name st"
  "s_tax_id (scan_total_amount l st) = s_tax_id st"
  "s_invoice_number (scan_total_amount l st) = s_invoice_number st"
  "s_invoice_date (scan_total_amount l st) = s_invoice_date st"
  "s_due_date (scan_total_amount l st) = s_due_date st"
  "s_total_amount (scan_total_amount l st) =
     (if total_cue l \<and> amount_str l \<noteq> [] then parse_decimal (Some (amount_str l))
      else s_total_amount st)"
  by (simp_all add: scan_total_amount_def)

lemma scan_line_item_sel:
  "s_vendor_name (scan_line_item l st) = s_vendor_name st"
  "s_tax_id (scan_line_item l st) = s_tax_id st"
  "s_invoice_number (scan_line_item l st) = s_invoice_number st"
  "s_invoice_date (scan_line_item l st) = s_invoice_date st"
  "s_due_date (scan_line_item l st) = s_due_date st"
  "s_total_amount (scan_line_item l st) = s_total_amount st"
  by (simp_all add: scan_line_item_def split: option.splits)

lemmas scan_sel = scan_vendor_name_sel scan_tax_id_sel scan_invoice_number_sel
  scan_invoice_date_sel scan_due_date_sel scan_total_amount_sel scan_line_item_sel

lemma scan_line_fields:
  "s_vendor_name (scan_line l st) =
     (if vendor_cue l \<and> has_colon l then Some (field_value l) else s_vendor_name st)"
  "s_tax_id (scan_line l st) =
     (if tax_id_cue l \<and> has_colon l then Some (field_value l) else s_tax_id st)"
  "s_invoice_number (scan_line l st) =
     (if invoice_number_cue l \<and> has_colon l then Some (field_value l) else s_invoice_number st)"
  "s_invoice_date (scan_line l st) =
     (if invoice_date_cue l \<and> s_invoice_date st = None then parse_date (Some (raw_date l))
      else s_invoice_date st)"
  "s_due_date (scan_line l st) =
     (if due_date_cue l then parse_date (Some (raw_date l)) else s_due_date st)"
  "s_total_amount (scan_line l st) =
     (if total_cue l \<and> amount_str l \<noteq> [] then parse_decimal (Some (amount_str l))
      else s_total_amount st)"
  by (simp_all only: scan_line_def scan_sel)

lemma scan_lines_vendor_name:
  "s_vendor_name (scan_lines ls st) =
     (case find (\<lambda>l. vendor_cue l \<and> has_colon l) (rev ls) of
        None \<Rightarrow> s_vendor_name st
      | Some l \<Rightarrow> Some (field_value l))"
proof (induction ls arbitrary: st)
  case Nil
  then show ?case by simp
next
  case (Cons l ls)
  show ?case
    by (simp add: Cons.IH find_snoc scan_line_fields split: option.splits)
qed

lemma scan_lines_tax_id:
  "s_tax_id (scan_lines ls st) =
     (case find (\<lambda>l. tax_id_cue l \<and> has_colon l) (rev ls) of
        None \<Rightarrow> s_tax_id st
      | Some l \<Rightarrow> Some (field_value l))"
proof (induction ls arbitrary: st)
  case Nil
  then show ?case by simp
next
  case (Cons l ls)
  show ?case
    by (simp add: Cons.IH find_snoc scan_line_fields split: option.splits)
qed

lemma scan_lines_invoice_number:
  "s_invoice_number (scan_lines ls st) =
     (case find (\<lambda>l. invoice_number_cue l \<and> has_colon l) (rev ls) of
        None \<Rightarrow> s_invoice_number st
      | Some l \<Rightarrow> Some (field_value l))"
proof (induction ls arbitrary: st)
  case Nil
  then show ?case by simp
next
  case (Cons l ls)
  show ?case
    by (simp add: Cons.IH find_snoc scan_line_fields split: option.splits)
qed

lemma scan_lines_due_date:
  "s_due_date (scan_lines ls st) =
     (case find due_date_cue (rev ls) of
        None \<Rightarrow> s_due_date st
      | Some l \<Rightarrow> parse_date (Some (raw_date l)))"
proof (induction ls arbitrary: st)
  case Nil
  then show ?case by simp
next
  case (Cons l ls)
  show ?case
    by (simp add: Cons.IH find_snoc scan_line_fields split: option.splits)
qed

lemma scan_lines_total_amount:
  "s_total_amount (scan_lines ls st) =
     (case find (\<lambda>l. total_cue l \<and> amount_str l \<noteq> []) (rev ls) of
        None \<Rightarrow> s_total_amount st
      | Some l \<Rightarrow> parse_decimal (Some (amount_str l)))"
proof (induction ls arbitrary: st)
  case Nil
  then show ?case by simp
next
  case (Cons l ls)
  show ?case
    by (simp add: Cons.IH find_snoc scan_line_fields split: option.splits)
qed

lemma scan_lines_invoice_date:
  "s_invoice_date (scan_lines ls st) =
     (case s_invoice_date st of
        Some d \<Rightarrow> Some d
      | None \<Rightarrow>
          (case find (\<lambda>l. invoice_date_cue l \<and> parse_date (Some (raw_date l)) \<noteq> None) ls of
             None \<Rightarrow> None
           | Some l \<Rightarrow> parse_date (Some (raw_date l))))"
proof (induction ls arbitrary: st)
  case Nil
  then show ?case by (simp split: option.splits)
next
  case (Cons l ls)
  show ?case
    by (auto simp add: Cons.IH scan_line_fields split: option.splits)
qed

subsection \<open>Claim C10\<close>

lemma no_amount_lines: "split_lines no_amount_text = [''Total: $5'', ''Totals in US$'']"
  by (simp add: no_amount_text_def)

lemma total_cue_lines: "total_cue ''Total: $5''" "total_cue ''Totals in US$''"
  by (simp_all add: total_cue_def lower_def lower_char_def)

lemma amount_str_lines: "amount_str ''Total: $5'' = ''5''" "amount_str ''Totals in US$'' = []"
  by (simp_all add: amount_str_def after_last_dollar_def is_digit_def)

lemma Decimal_5: "Decimal ''5'' = Some \<lparr>coeff = 5, expo = 0\<rparr>"
  by (simp add: Decimal_def is_digit_def nat_of_digits_def digit_val_def)

text \<open>
  Claim C10 as stated fails for the total amount. In \<open>no_amount_text\<close> the last line
  with the cue \<^verbatim>\<open>total\<close> and a dollar sign is \<^verbatim>\<open>Totals in US$\<close>; nothing that could be
  an amount follows its dollar sign, and the extracted total is that of the earlier
  line.
\<close>

theorem total_line_without_amount_counterexample:
  "find total_cue (rev (split_lines no_amount_text)) = Some ''Totals in US$''
   \<and> parse_decimal (Some (amount_str ''Totals in US$'')) = None
   \<and> total_amount (simple_extract no_amount_text) = Some \<lparr>coeff = 5, expo = 0\<rparr>"
proof -
  have "total_amount (simple_extract no_amount_text)
          = s_total_amount (scan_lines (split_lines no_amount_text) scan_init)"
    by (simp add: simple_extract_def finish_def Let_def)
  also have "\<dots> = Some \<lparr>coeff = 5, expo = 0\<rparr>"
    by (simp add: scan_lines_total_amount no_amount_lines total_cue_lines amount_str_lines
          parse_decimal_def Decimal_5 scan_init_def del: scan_lines.simps)
  finally have t: "total_amount (simple_extract no_amount_text) = Some \<lparr>coeff = 5, expo = 0\<rparr>" .
  have f: "find total_cue (rev (split_lines no_amount_text)) = Some ''Totals in US$''"
    by (simp add: no_amount_lines total_cue_lines)
  have p: "parse_decimal (Some (amount_str ''Totals in US$'')) = None"
    by (simp add: amount_str_lines parse_decimal_def Decimal_def)
  show ?thesis using t f p by simp
qed

text \<open>
  Claim C10, amended. In the pattern-based extractor the last matching line wins for
  \<open>vendor_name\<close>, \<open>tax_id\<close> and \<open>invoice_number\<close> (among the lines with the cue and a
  colon), for \<open>total_amount\<close> (among the lines with the cue \<^verbatim>\<open>total\<close>, a dollar sign and at
  least one digit or dot after the last dollar sign), and for \<open>due_date\<close> (among the
  lines with the cue; a value that does not parse makes the date absent). Only
  \<open>invoice_date\<close> is that of the first line with its cue whose value parses, and is not
  overwritten afterwards.
\<close>

theorem simple_extract_cues:
  "vendor_name (simple_extract t)
     = map_option field_value (find (\<lambda>l. vendor_cue l \<and> has_colon l) (rev (split_lines t)))
   \<and> tax_id (simple_extract t)
     = map_option field_value (find (\<lambda>l. tax_id_cue l \<and> has_colon l) (rev (split_lines t)))
   \<and> invoice_number (simple_extract t)
     = map_option field_value
         (find (\<lambda>l. invoice_number_cue l \<and> has_colon l) (rev (split_lines t)))
   \<and> total_amount (simple_extract t)
     = (case find (\<lambda>l. total_cue l \<and> amount_str l \<noteq> []) (rev (split_lines t)) of
          None \<Rightarrow> None
        | Some l \<Rightarrow> parse_decimal (Some (amount_str l)))
   \<and> due_date (simple_extract t)
     = (case find due_date_cue (rev (split_lines t)) of
          None \<Rightarrow> None
        | Some l \<Rightarrow> parse_date (Some (raw_date l)))
   \<and> invoice_date (simple_extract t)
     = (case find (\<lambda>l. invoice_date_cue l \<and> parse_date (Some (raw_date l)) \<noteq> None)
               (split_lines t) of
          None \<Rightarrow> None
        | Some l \<Rightarrow> parse_date (Some (raw_date l)))"
proof -
  let ?st = "scan_lines (split_lines t) scan_init"
  have sel: "vendor_name (simple_extract t) = s_vendor_name ?st"
    "tax_id (simple_extract t) = s_tax_id ?st"
    "invoice_number (simple_extract t) = s_invoice_number ?st"
    "total_amount (simple_extract t) = s_total_amount ?st"
    "due_date (simple_extract t) = s_due_date ?st"
    "invoice_date (simple_extract t) = s_invoice_date ?st"
    by (simp_all add: simple_extract_def finish_def Let_def)
  have init: "s_vendor_name scan_init = None" "s_tax_id scan_init = None"
    "s_invoice_number scan_init = None" "s_total_amount scan_init = None"
    "s_due_date scan_init = None" "s_invoice_date scan_init = None"
    by (simp_all add: scan_init_def)
  show ?thesis
    unfolding sel
    by (simp add: scan_lines_vendor_name scan_lines_tax_id scan_lines_invoice_number
          scan_lines_total_amount scan_lines_due_date scan_lines_invoice_date init
          split: option.splits)
qed

section \<open>Properties of the extraction facade\<close>

text \<open>
  Claim C4. In generative mode, when the generative path raises for a text, \<open>extract\<close>
  returns the pattern-based extraction of that text; and \<open>extract\<close> raises in no mode,
  whatever the generative path does.
\<close>

theorem extract_fallback:
  assumes "llm ocr_text = Inl exc"
  shows "Extractor_extract ''llm'' llm ocr_text = Inr (simple_extract ocr_text)
         \<and> (\<forall>mode llm' x. Extractor_extract mode llm' ocr_text \<noteq> Inl x)"
proof
  show "Extractor_extract ''llm'' llm ocr_text = Inr (simple_extract ocr_text)"
    using assms by (simp add: Extractor_extract_def)
  show "\<forall>mode llm' x. Extractor_extract mode llm' ocr_text \<noteq> Inl x"
    by (simp add: Extractor_extract_def split: sum.splits)
qed

text \<open>With a generative extractor that is down, the vendor still comes out of the
  text.\<close>

lemma vendor_line: "vendor_cue ''Vendor: A''" "has_colon ''Vendor: A''"
  "field_value ''Vendor: A'' = ''A''"
  by (simp_all add: vendor_cue_def has_colon_def field_value_def lower_def lower_char_def
        strip_def after_first_colon_def is_space_def)

theorem extract_fallback_witness:
  "failing_llm ''Vendor: A'' = Inl (ProviderError ''connection refused'')
   \<and> Extractor_extract ''llm'' failing_llm ''Vendor: A'' = Inr (simple_extract ''Vendor: A'')
   \<and> vendor_name (simple_extract ''Vendor: A'') = Some ''A''"
proof -
  have h: "failing_llm ''Vendor: A'' = Inl (ProviderError ''connection refused'')"
    by (simp add: failing_llm_def)
  have "vendor_name (simple_extract ''Vendor: A'')
          = s_vendor_name (scan_lines (split_lines ''Vendor: A'') scan_init)"
    by (simp add: simple_extract_def finish_def Let_def)
  also have "\<dots> = Some ''A''"
    by (simp add: scan_lines_vendor_name vendor_line del: scan_lines.simps)
  finally have v: "vendor_name (simple_extract ''Vendor: A'') = Some ''A''" .
  from extract_fallback [of failing_llm "''Vendor: A''" "ProviderError ''connection refused''", OF h]
  show ?thesis using h v by simp
qed

section \<open>Properties of the pipeline\<close>

subsection \<open>What each operation does to the session\<close>

lemma flush_sel [simp]: "flush s = s"
  by (simp add: flush_def)

lemma commit_sel [simp]: "current (commit s) = current s" "committed (commit s) = current s"
  by (simp_all add: commit_def)

lemma set_status_sel [simp]:
  "events (current (set_status i v s)) = events (current s)"
  "extractions (current (set_status i v s)) = extractions (current s)"
  "validations (current (set_status i v s)) = validations (current s)"
  "committed (set_status i v s) = committed s"
  by (simp_all add: set_status_def)

lemma map_of_set_status:
  "map_of (map (\<lambda>(k, d). if k = i then (k, f d) else (k, d)) xs) j =
     (if j = i then map_option f (map_of xs i) else map_of xs j)"
  by (induction xs) auto

lemma set_status_documents:
  "lookup_document j (current (set_status i v s)) =
     (if j = i then map_option (\<lambda>d. d\<lparr>status := v\<rparr>) (lookup_document i (current s))
      else lookup_document j (current s))"
  by (simp add: set_status_def lookup_document_def map_of_set_status)

lemma emit_event_sel [simp]:
  "events (current (emit_event i stp st dtl dur s)) =
     events (current s) @ [\<lparr>p_document_id = i, step = stp, p_status = st, detail = dtl,
                             duration_ms = dur\<rparr>]"
  "documents (current (emit_event i stp st dtl dur s)) = documents (current s)"
  "extractions (current (emit_event i stp st dtl dur s)) = extractions (current s)"
  "validations (current (emit_event i stp st dtl dur s)) = validations (current s)"
  "committed (emit_event i stp st dtl dur s) = committed s"
  by (simp_all add: emit_event_def add_event_def)

lemma add_extraction_sel [simp]:
  "events (current (add_extraction x s)) = events (current s)"
  "documents (current (add_extraction x s)) = documents (current s)"
  "extractions (current (add_extraction x s)) = extractions (current s) @ [x]"
  "validations (current (add_extraction x s)) = validations (current s)"
  "committed (add_extraction x s) = committed s"
  by (simp_all add: add_extraction_def)

lemma add_validations_sel [simp]:
  "events (current (add_validations i rs s)) = events (current s)"
  "documents (current (add_validations i rs s)) = documents (current s)"
  "extractions (current (add_validations i rs s)) = extractions (current s)"
  "validations (current (add_validations i rs s)) =
     validations (current s) @ map (validation_row i) rs"
  "committed (add_validations i rs s) = committed s"
  by (induction rs arbitrary: s) (simp_all add: add_validation_def)

lemma lookup_document_cong:
  "documents t' = documents t \<Longrightarrow> lookup_document i t' = lookup_document i t"
  by (simp add: lookup_document_def)

lemma lookup_document_sel [simp]:
  "lookup_document j (current (emit_event i stp st dtl dur s)) = lookup_document j (current s)"
  "lookup_document j (current (add_extraction x s)) = lookup_document j (current s)"
  "lookup_document j (current (add_validations i rs s)) = lookup_document j (current s)"
  by (rule lookup_document_cong, simp)+

lemma existing_cong:
  "extractions (current s') = extractions (current s) \<Longrightarrow>
     get_existing_invoice_numbers i s' = get_existing_invoice_numbers i s"
  by (simp add: get_existing_invoice_numbers_def)

lemma try_body_success:
  assumes found: "lookup_document i (current s) = Some doc"
    and ocr: "ocr_engine e pdf = Inr ocr_result"
    and ex: "Extractor_extract (extraction_mode e) (llm_extract e) (r_text ocr_result)
               = Inr extracted"
    and val: "validate extracted (Some (get_existing_invoice_numbers i s)) = Inr rs"
  shows "\<exists>s'. try_body e i pdf s = (Inr (), s')
     \<and> events (current s') = events (current s) @
         [\<lparr>p_document_id = i, step = ''ocr'', p_status = ''started'', detail = None,
            duration_ms = None\<rparr>,
          \<lparr>p_document_id = i, step = ''ocr'', p_status = ''completed'', detail = None,
            duration_ms = Some (ocr_ms e)\<rparr>,
          \<lparr>p_document_id = i, step = ''extraction'', p_status = ''started'', detail = None,
            duration_ms = None\<rparr>,
          \<lparr>p_document_id = i, step = ''extraction'', p_status = ''completed'', detail = None,
            duration_ms = Some (extraction_ms e)\<rparr>,
          \<lparr>p_document_id = i, step = ''validation'', p_status = ''completed'',
            detail = Some (str_nat (length rs) @ '' rules evaluated, ''
                           @ str_nat (length (filter passed rs)) @ '' passed''),
            duration_ms = None\<rparr>,
          \<lparr>p_document_id = i, step = ''confidence'', p_status = ''completed'',
            detail = Some (''overall='' @ format_3f (overall
                       (compute_confidence (r_confidence ocr_result)
                          (extraction_confidence extracted) rs (Some extracted)))),
            duration_ms = None\<rparr>,
          \<lparr>p_document_id = i, step = ''completed'', p_status = ''completed'',
            detail = Some (''final_status='' @ final_status
                       (compute_confidence (r_confidence ocr_result)
                          (extraction_confidence extracted) rs (Some extracted)) rs
                     @ '' confidence='' @ format_3f (overall
                       (compute_confidence (r_confidence ocr_result)
                          (extraction_confidence extracted) rs (Some extracted)))),
            duration_ms = None\<rparr>]
     \<and> lookup_document i (current s') =
         Some (doc\<lparr>status := final_status
                       (compute_confidence (r_confidence ocr_result)
                          (extraction_confidence extracted) rs (Some extracted)) rs\<rparr>)
     \<and> extractions (current s') = extractions (current s) @
         [extraction_row i extracted
            (compute_confidence (r_confidence ocr_result)
               (extraction_confidence extracted) rs (Some extracted)) ocr_result]
     \<and> validations (current s') = validations (current s) @ map (validation_row i) rs
     \<and> committed s' = current s'"
proof -
  let ?s2 = "emit_event i ''ocr'' ''completed'' None (Some (ocr_ms e))
               (emit_event i ''ocr'' ''started'' None None (set_status i ''processing'' s))"
  let ?s3 = "emit_event i ''extraction'' ''completed'' None (Some (extraction_ms e))
               (emit_event i ''extraction'' ''started'' None None ?s2)"
  have g: "get_existing_invoice_numbers i ?s3 = get_existing_invoice_numbers i s"
    by (rule existing_cong) simp
  show ?thesis
    unfolding try_body_def run_step_def
    by (simp add: ocr ex g val Let_def set_status_documents found)
qed


lemma Extractor_extract_returns: "Extractor_extract m l t \<noteq> Inl x"
  by (simp add: Extractor_extract_def split: sum.splits)


subsection \<open>The sample run\<close>

lemma scan_vendor_line:
  "scan_line ''Vendor: A'' scan_init = scan_init\<lparr>s_vendor_name := Some ''A''\<rparr>"
  by (simp add: scan_defs scan_init_def cue_defs string_defs char_defs Let_def)

lemma vendor_only_extract: "simple_extract ''Vendor: A'' = vendor_only"
proof -
  have "scan_lines (split_lines ''Vendor: A'') scan_init = scan_init\<lparr>s_vendor_name := Some ''A''\<rparr>"
    by (simp add: scan_vendor_line)
  then show ?thesis
    by (simp add: simple_extract_def finish_def scan_init_def str_truthy_def
          decimal_truthy_def vendor_only_def)
qed

lemma sample_extract:
  "Extractor_extract (extraction_mode sample_env) (llm_extract sample_env)
     (r_text sample_ocr_result) = Inr vendor_only"
  by (simp add: Extractor_extract_def sample_env_def sample_ocr_result_def vendor_only_extract)

lemma sample_existing: "get_existing_invoice_numbers ''d1'' sample_session = {}"
  by (simp add: get_existing_invoice_numbers_def sample_session_def sample_tables_def)

lemma vendor_only_validate: "validate vendor_only (Some {}) = Inr all_skipped"
  by (simp add: validate_def validate_line_items_sum_def validate_tax_id_format_def
        validate_dates_def validate_no_duplicate_def vendor_only_def all_skipped_def
        items_truthy_def decimal_truthy_def str_truthy_def)

lemma sample_overall:
  "overall (compute_confidence (r_confidence sample_ocr_result)
              (extraction_confidence vendor_only) all_skipped (Some vendor_only)) = 167 / 200"
  by (simp add: compute_confidence_def all_skipped_def round4_def round_half_even_def Let_def
        sample_ocr_result_def vendor_only_def)

lemma sample_final_status:
  "final_status (compute_confidence (r_confidence sample_ocr_result)
                   (extraction_confidence vendor_only) all_skipped (Some vendor_only))
     all_skipped = ''completed''"
  by (simp add: final_status_def Let_def sample_overall) (simp add: all_skipped_def)

lemma format_sample: "format_3f (167 / 200) = ''0.835''"
  by (simp add: format_3f_def round_half_even_def Let_def pad3_def str_nat.simps digit_char_def)

lemma str_nat_4: "str_nat 4 = ''4''"
  by (simp add: str_nat.simps digit_char_def)

lemma sample_found:
  "lookup_document ''d1'' (current sample_session)
     = Some \<lparr>filename = ''invoice.pdf'', content_type = ''application/pdf'', status = ''pending''\<rparr>"
  by (simp add: sample_session_def sample_tables_def lookup_document_def)

lemma sample_ocr: "ocr_engine sample_env ''%PDF'' = Inr sample_ocr_result"
  by (simp add: sample_env_def)

lemma sample_validate_run:
  "validate vendor_only (Some (get_existing_invoice_numbers ''d1'' sample_session))
     = Inr all_skipped"
  by (simp add: sample_existing vendor_only_validate)

lemma sample_not_completed:
  "status \<lparr>filename = ''invoice.pdf'', content_type = ''application/pdf'',
            status = ''pending''\<rparr> \<noteq> ''completed''"
  by simp

lemma sample_process:
  "\<exists>s'. process_document sample_env ''d1'' ''%PDF'' sample_session = (Inr (), s')"
proof -
  from try_body_success [OF sample_found sample_ocr sample_extract sample_validate_run]
  obtain s' where "try_body sample_env ''d1'' ''%PDF'' sample_session = (Inr (), s')"
    by blast
  then show ?thesis using sample_found by (simp add: process_document_def)
qed


subsection \<open>Claim C2: the idempotency guard\<close>

text \<open>
  Claim C2. When the document is completed at the time \<open>process_document\<close> is invoked,
  the invocation returns without an exception and leaves the session as it was: the
  current and the committed tables are unchanged, so no field of a document has changed
  and no extraction, validation or audit event has been added. The guard comes before
  everything else that touches the session.
\<close>

theorem completed_is_noop:
  assumes "lookup_document document_id (current s) = Some doc" and "status doc = ''completed''"
  shows "process_document e document_id pdf_bytes s = (Inr (), s)"
  using assms by (simp add: process_document_def)

text \<open>A second run on a completed document, in a store that holds its audit trail.\<close>

theorem completed_is_noop_witness:
  "lookup_document ''d1'' (current completed_session)
     = Some \<lparr>filename = ''invoice.pdf'', content_type = ''application/pdf'',
             status = ''completed''\<rparr>
   \<and> process_document sample_env ''d1'' ''%PDF'' completed_session = (Inr (), completed_session)"
proof -
  have h1: "lookup_document ''d1'' (current completed_session)
     = Some \<lparr>filename = ''invoice.pdf'', content_type = ''application/pdf'',
             status = ''completed''\<rparr>"
    by (simp add: completed_session_def completed_tables_def lookup_document_def)
  have h2: "status \<lparr>filename = ''invoice.pdf'', content_type = ''application/pdf'',
                    status = ''completed''\<rparr> = ''completed''"
    by simp
  from completed_is_noop [OF h1 h2, of sample_env "''%PDF''"] show ?thesis using h1 by simp
qed

subsection \<open>Claim C3: failure of a step\<close>



subsection \<open>Claim C1: the final status\<close>

text \<open>
  Claim C1. For a found document that is not completed, when OCR, extraction and
  validation succeed, the run returns without an exception and the document's final
  status, current and committed, is \<open>review\<close> if the overall confidence is below 0.6 or
  some validation result did not pass, and \<open>completed\<close> otherwise.
\<close>

theorem final_status_decision:
  assumes found: "lookup_document document_id (current s) = Some doc"
    and nc: "status doc \<noteq> ''completed''"
    and ocr: "ocr_engine e pdf_bytes = Inr ocr_result"
    and ex: "Extractor_extract (extraction_mode e) (llm_extract e) (r_text ocr_result)
               = Inr extracted"
    and val: "validate extracted (Some (get_existing_invoice_numbers document_id s)) = Inr rs"
  shows "\<exists>s'. process_document e document_id pdf_bytes s = (Inr (), s')
     \<and> map_option status (lookup_document document_id (current s'))
       = Some (if overall (compute_confidence (r_confidence ocr_result)
                            (extraction_confidence extracted) rs (Some extracted)) < 6 / 10
                  \<or> (\<exists>r. r \<in> set rs \<and> \<not> passed r)
               then ''review'' else ''completed'')
     \<and> map_option status (lookup_document document_id (committed s'))
       = map_option status (lookup_document document_id (current s'))"
proof -
  from try_body_success [OF found ocr ex val]
  obtain s' where t: "try_body e document_id pdf_bytes s = (Inr (), s')"
    and d: "lookup_document document_id (current s') =
         Some (doc\<lparr>status := final_status
                       (compute_confidence (r_confidence ocr_result)
                          (extraction_confidence extracted) rs (Some extracted)) rs\<rparr>)"
    and c: "committed s' = current s'"
    by blast
  have p: "process_document e document_id pdf_bytes s = (Inr (), s')"
    using found nc t by (simp add: process_document_def)
  have a: "list_all passed rs \<longleftrightarrow> \<not> (\<exists>r. r \<in> set rs \<and> \<not> passed r)"
    by (auto simp: list_all_iff)
  show ?thesis using p d c by (auto simp: final_status_def Let_def a)
qed

text \<open>The sample run ends in the status \<open>completed\<close>.\<close>

theorem final_status_decision_witness:
  "\<exists>s'. process_document sample_env ''d1'' ''%PDF'' sample_session = (Inr (), s')
     \<and> map_option status (lookup_document ''d1'' (current s')) = Some ''completed''
     \<and> map_option status (lookup_document ''d1'' (committed s')) = Some ''completed''"
proof -
  have ap: "\<not> (\<exists>r. r \<in> set all_skipped \<and> \<not> passed r)"
    by (auto simp: all_skipped_def)
  from final_status_decision
         [OF sample_found sample_not_completed sample_ocr sample_extract sample_validate_run]
  show ?thesis by (simp only: sample_overall ap) auto
qed

subsection \<open>Claim C8: the audit trail of a successful run\<close>

text \<open>
  Claim C8. Every run of \<open>process_document\<close> on a found document that is not completed,
  and that returns without an exception, adds exactly seven audit events, in this order:
  \<open>started\<close> and \<open>completed\<close> for the step \<open>ocr\<close>, \<open>started\<close> and \<open>completed\<close> for the
  step \<open>extraction\<close> (each \<open>completed\<close> event with the measured duration), one
  \<open>completed\<close> event for \<open>validation\<close>, one for \<open>confidence\<close>, and the final
  \<open>completed\<close> event; there is no \<open>started\<close> event for validation or confidence. All
  seven are committed.
\<close>

theorem audit_trail_of_success:
  assumes found: "lookup_document document_id (current s) = Some doc"
    and nc: "status doc \<noteq> ''completed''"
    and ok: "process_document e document_id pdf_bytes s = (Inr (), s')"
  shows "\<exists>ocr_result extracted rs confidence.
       ocr_engine e pdf_bytes = Inr ocr_result
     \<and> Extractor_extract (extraction_mode e) (llm_extract e) (r_text ocr_result) = Inr extracted
     \<and> validate extracted (Some (get_existing_invoice_numbers document_id s)) = Inr rs
     \<and> confidence = compute_confidence (r_confidence ocr_result)
                       (extraction_confidence extracted) rs (Some extracted)
     \<and> events (current s') = events (current s) @
         [\<lparr>p_document_id = document_id, step = ''ocr'', p_status = ''started'',
            detail = None, duration_ms = None\<rparr>,
          \<lparr>p_document_id = document_id, step = ''ocr'', p_status = ''completed'',
            detail = None, duration_ms = Some (ocr_ms e)\<rparr>,
          \<lparr>p_document_id = document_id, step = ''extraction'', p_status = ''started'',
            detail = None, duration_ms = None\<rparr>,
          \<lparr>p_document_id = document_id, step = ''extraction'', p_status = ''completed'',
            detail = None, duration_ms = Some (extraction_ms e)\<rparr>,
          \<lparr>p_document_id = document_id, step = ''validation'', p_status = ''completed'',
            detail = Some (str_nat (length rs) @ '' rules evaluated, ''
                           @ str_nat (length (filter passed rs)) @ '' passed''),
            duration_ms = None\<rparr>,
          \<lparr>p_document_id = document_id, step = ''confidence'', p_status = ''completed'',
            detail = Some (''overall='' @ format_3f (overall confidence)),
            duration_ms = None\<rparr>,
          \<lparr>p_document_id = document_id, step = ''completed'', p_status = ''completed'',
            detail = Some (''final_status='' @ final_status confidence rs
                           @ '' confidence='' @ format_3f (overall confidence)),
            duration_ms = None\<rparr>]
     \<and> events (committed s') = events (current s')"
proof -
  have t: "try_body e document_id pdf_bytes s = (Inr (), s')"
    using found nc ok
    by (cases "try_body e document_id pdf_bytes s")
       (auto simp: process_document_def split: sum.splits)
  obtain ocr_result where ocr: "ocr_engine e pdf_bytes = Inr ocr_result"
    using t by (cases "ocr_engine e pdf_bytes") (auto simp: try_body_def run_step_def Let_def)
  obtain extracted where ex: "Extractor_extract (extraction_mode e) (llm_extract e)
                                (r_text ocr_result) = Inr extracted"
    using Extractor_extract_returns
    by (cases "Extractor_extract (extraction_mode e) (llm_extract e) (r_text ocr_result)") auto
  let ?s2 = "emit_event document_id ''ocr'' ''completed'' None (Some (ocr_ms e))
               (emit_event document_id ''ocr'' ''started'' None None
                  (set_status document_id ''processing'' s))"
  let ?s3 = "emit_event document_id ''extraction'' ''completed'' None (Some (extraction_ms e))
               (emit_event document_id ''extraction'' ''started'' None None ?s2)"
  have g: "get_existing_invoice_numbers document_id ?s3
             = get_existing_invoice_numbers document_id s"
    by (rule existing_cong) simp
  obtain rs where val: "validate extracted (Some (get_existing_invoice_numbers document_id s))
                          = Inr rs"
  proof (cases "validate extracted (Some (get_existing_invoice_numbers document_id s))")
    case (Inl x)
    have "try_body e document_id pdf_bytes s = (Inl x, ?s3)"
      unfolding try_body_def run_step_def
      by (simp add: ocr ex g Inl Let_def)
    then show ?thesis using t by simp
  next
    case (Inr rs)
    then show ?thesis using that by blast
  qed
  from try_body_success [OF found ocr ex val] t
  show ?thesis using ocr ex val by auto
qed

text \<open>The audit trail of the sample run.\<close>

theorem audit_trail_of_success_witness:
  "process_document sample_env ''d1'' ''%PDF'' sample_session
     = (Inr (), snd (process_document sample_env ''d1'' ''%PDF'' sample_session))
   \<and> events (current (snd (process_document sample_env ''d1'' ''%PDF'' sample_session))) =
         [\<lparr>p_document_id = ''d1'', step = ''ocr'', p_status = ''started'',
            detail = None, duration_ms = None\<rparr>,
          \<lparr>p_document_id = ''d1'', step = ''ocr'', p_status = ''completed'',
            detail = None, duration_ms = Some 12\<rparr>,
          \<lparr>p_document_id = ''d1'', step = ''extraction'', p_status = ''started'',
            detail = None, duration_ms = None\<rparr>,
          \<lparr>p_document_id = ''d1'', step = ''extraction'', p_status = ''completed'',
            detail = None, duration_ms = Some 3\<rparr>,
          \<lparr>p_document_id = ''d1'', step = ''validation'', p_status = ''completed'',
            detail = Some ''4 rules evaluated, 4 passed'', duration_ms = None\<rparr>,
          \<lparr>p_document_id = ''d1'', step = ''confidence'', p_status = ''completed'',
            detail = Some ''overall=0.835'', duration_ms = None\<rparr>,
          \<lparr>p_document_id = ''d1'', step = ''completed'', p_status = ''completed'',
            detail = Some ''final_status=completed confidence=0.835'', duration_ms = None\<rparr>]"
proof -
  let ?s' = "snd (process_document sample_env ''d1'' ''%PDF'' sample_session)"
  have ok: "process_document sample_env ''d1'' ''%PDF'' sample_session = (Inr (), ?s')"
    using sample_process by auto
  have ev: "events (current sample_session) = []"
    by (simp add: sample_session_def sample_tables_def lookup_document_def)
  have ms: "ocr_ms sample_env = 12" "extraction_ms sample_env = 3"
    by (simp_all add: sample_env_def)
  have n: "length all_skipped = 4" "length (filter passed all_skipped) = 4"
    by (simp_all add: all_skipped_def)
  from audit_trail_of_success [OF sample_found sample_not_completed ok]
  obtain ocr_result extracted rs where
    a: "ocr_engine sample_env ''%PDF'' = Inr ocr_result"
    and b: "Extractor_extract (extraction_mode sample_env) (llm_extract sample_env)
              (r_text ocr_result) = Inr extracted"
    and c: "validate extracted (Some (get_existing_invoice_numbers ''d1'' sample_session)) = Inr rs"
    and d: "events (current ?s') = events (current sample_session) @
         [\<lparr>p_document_id = ''d1'', step = ''ocr'', p_status = ''started'',
            detail = None, duration_ms = None\<rparr>,
          \<lparr>p_document_id = ''d1'', step = ''ocr'', p_status = ''completed'',
            detail = None, duration_ms = Some (ocr_ms sample_env)\<rparr>,
          \<lparr>p_document_id = ''d1'', step = ''extraction'', p_status = ''started'',
            detail = None, duration_ms = None\<rparr>,
          \<lparr>p_document_id = ''d1'', step = ''extraction'', p_status = ''completed'',
            detail = None, duration_ms = Some (extraction_ms sample_env)\<rparr>,
          \<lparr>p_document_id = ''d1'', step = ''validation'', p_status = ''completed'',
            detail = Some (str_nat (length rs) @ '' rules evaluated, ''
                           @ str_nat (length (filter passed rs)) @ '' passed''),
            duration_ms = None\<rparr>,
          \<lparr>p_document_id = ''d1'', step = ''confidence'', p_status = ''completed'',
            detail = Some (''overall='' @ format_3f (overall
                       (compute_confidence (r_confidence ocr_result)
                          (extraction_confidence extracted) rs (Some extracted)))),
            duration_ms = None\<rparr>,
          \<lparr>p_document_id = ''d1'', step = ''completed'', p_status = ''completed'',
            detail = Some (''final_status='' @ final_status
                       (compute_confidence (r_confidence ocr_result)
                          (extraction_confidence extracted) rs (Some extracted)) rs
                     @ '' confidence='' @ format_3f (overall
                       (compute_confidence (r_confidence ocr_result)
                          (extraction_confidence extracted) rs (Some extracted)))),
            duration_ms = None\<rparr>]"
    by blast
  have o: "ocr_result = sample_ocr_result"
    using a sample_ocr by simp
  have e: "extracted = vendor_only" using b sample_extract o by simp
  have r: "rs = all_skipped" using c sample_validate_run e by simp
  show ?thesis
    using ok d
    by (simp add: o e r ev ms n sample_overall sample_final_status format_sample str_nat_4)
qed

end
